theory Spec2Isabelle
  imports Main
begin

section \<open>Release settlement of the escrow contract\<close>

text \<open>
  The provider SDK under \<open>packages/provider-sdk\<close> is a client of two on-chain contracts,
  Escrow and Registry. The contracts themselves are not among the sources; the fee split of
  a Release is therefore taken from the specification (data model, invariant 4). Amounts are
  unsigned big integers, modelled as \<open>nat\<close>; subtraction on \<open>nat\<close> stops at zero, so the
  theorem about the split also shows that no subtraction is cut off.
\<close>

text \<open>Modelled from the spec: the escrow contract's Release computes
  \<open>protocol_fee = floor(usage_fee * fee_percentage / 100)\<close>; the contract source is absent.\<close>

definition protocol_fee :: "nat \<Rightarrow> nat \<Rightarrow> nat" where
  "protocol_fee usage_fee fee_percentage = usage_fee * fee_percentage div 100"

text \<open>Modelled from the spec: the escrow contract's Release pays the provider
  \<open>provider_amount = usage_fee - protocol_fee\<close>; the contract source is absent.\<close>

definition provider_amount :: "nat \<Rightarrow> nat \<Rightarrow> nat" where
  "provider_amount usage_fee fee_percentage = usage_fee - protocol_fee usage_fee fee_percentage"

text \<open>Modelled from the spec: the escrow contract's Release returns
  \<open>caller_refund = ceiling_fee - usage_fee\<close> to the caller; the contract source is absent.\<close>

definition caller_refund :: "nat \<Rightarrow> nat \<Rightarrow> nat" where
  "caller_refund ceiling_fee usage_fee = ceiling_fee - usage_fee"


section \<open>JavaScript values\<close>

text \<open>
  The clients receive values from the chain and from \<open>catch\<close> clauses, typed \<open>any\<close> or
  \<open>unknown\<close>. The model has the primitives, objects as property lists (an array is an
  object too), instances of \<open>Error\<close> with their \<open>name\<close> and \<open>message\<close> (both strings, as
  the interface \<open>Error\<close> declares them), and instances of \<open>PayPerToolError\<close> and its
  subclasses with the fields of the class. A property of an object is a data property,
  which holds a value, or an accessor property, whose getter runs when the property is
  read: the getter either throws (\<open>Inl\<close>) or returns a value (\<open>Inr\<close>), the same at every
  read. Functions are opaque. A getter whose outcome changes from one read to the next
  and proxies are outside the model.

  A number is kept by its mathematical value. Only integral numbers occur in the code
  (\<open>parseInt\<close> yields nothing else), so \<open>Finite\<close> carries an \<open>int\<close>; a non-integral number
  would behave like any other non-zero number wherever these functions look at one.
\<close>

datatype js_number = NaN | PosInfinity | NegInfinity | NegZero | Finite int

datatype js_value =
    JsUndefined
  | JsNull
  | JsBoolean bool
  | JsNumber js_number
  | JsBigInt int
  | JsString string
  | JsSymbol string
  | JsFunction
  | JsObject "(string \<times> js_property) list"
  | JsError string string
  | PayPerToolError (name: string) (message: string) (code: string)
      (details: "(string \<times> js_property) list")
and js_property =
    DataProperty js_value
  | AccessorProperty "js_value + js_value"

text \<open>Reading a property: the value it holds, or the outcome of its getter.\<close>

fun read_property :: "js_property \<Rightarrow> js_value + js_value" where
  "read_property (DataProperty v) = Inr v"
| "read_property (AccessorProperty outcome) = outcome"

text \<open>\<open>new Error(message)\<close>.\<close>

definition Error :: "string \<Rightarrow> js_value" where
  "Error msg = JsError ''Error'' msg"

text \<open>The operator \<open>typeof\<close>.\<close>

fun typeof :: "js_value \<Rightarrow> string" where
  "typeof JsUndefined = ''undefined''"
| "typeof JsNull = ''object''"
| "typeof (JsBoolean b) = ''boolean''"
| "typeof (JsNumber n) = ''number''"
| "typeof (JsBigInt i) = ''bigint''"
| "typeof (JsString s) = ''string''"
| "typeof (JsSymbol s) = ''symbol''"
| "typeof JsFunction = ''function''"
| "typeof (JsObject props) = ''object''"
| "typeof (JsError n m) = ''object''"
| "typeof (PayPerToolError n m c d) = ''object''"

text \<open>Truthiness, as \<open>!response\<close> and \<open>denom ? ... : ...\<close> test it.\<close>

fun truthy :: "js_value \<Rightarrow> bool" where
  "truthy JsUndefined = False"
| "truthy JsNull = False"
| "truthy (JsBoolean b) = b"
| "truthy (JsNumber n) = (n \<noteq> NaN \<and> n \<noteq> NegZero \<and> n \<noteq> Finite 0)"
| "truthy (JsBigInt i) = (i \<noteq> 0)"
| "truthy (JsString s) = (s \<noteq> [])"
| "truthy (JsSymbol s) = True"
| "truthy JsFunction = True"
| "truthy (JsObject props) = True"
| "truthy (JsError n m) = True"
| "truthy (PayPerToolError n m c d) = True"

text \<open>\<open>String.prototype.includes\<close>: the second string occurs in the first.\<close>

fun startsWith :: "string \<Rightarrow> string \<Rightarrow> bool" where
  "startsWith s [] = True"
| "startsWith [] (p # ps) = False"
| "startsWith (c # cs) (p # ps) = (c = p \<and> startsWith cs ps)"

fun includes_str :: "string \<Rightarrow> string \<Rightarrow> bool" where
  "includes_str [] p = (p = [])"
| "includes_str (c # cs) p = (startsWith (c # cs) p \<or> includes_str cs p)"


section \<open>The built-in \<open>parseInt\<close>\<close>

text \<open>
  \<open>parseInt(string)\<close> with no radix, after ECMAScript: leading white space is dropped, a
  sign is read, a prefix \<open>0x\<close> or \<open>0X\<close> selects radix 16 (radix 10 otherwise), the longest
  run of digits of the radix is read, and its value is rounded to the nearest double, ties
  to even. With no digit the result is \<open>NaN\<close>. Characters are 8-bit here, so the white space
  to drop is TAB, LF, VT, FF, CR, SPACE and the no-break space \<open>U+00A0\<close>; the other white
  space of ECMAScript lies beyond \<open>U+00FF\<close>. (Beyond 20 significant decimal digits the standard lets an
  implementation replace further digits by zeros; the model reads every digit. No
  unsigned 64-bit value has more than 20 digits.)
\<close>

definition isWhiteSpace :: "char \<Rightarrow> bool" where
  "isWhiteSpace c = ((of_char c :: nat) \<in> {9, 10, 11, 12, 13, 32, 160})"

definition digitValue :: "char \<Rightarrow> nat option" where
  "digitValue c =
     (let k = (of_char c :: nat) in
      if 48 \<le> k \<and> k \<le> 57 then Some (k - 48)
      else if 97 \<le> k \<and> k \<le> 122 then Some (k - 87)
      else if 65 \<le> k \<and> k \<le> 90 then Some (k - 55)
      else None)"

definition isRadixDigit :: "nat \<Rightarrow> char \<Rightarrow> bool" where
  "isRadixDigit R c = (case digitValue c of None \<Rightarrow> False | Some d \<Rightarrow> d < R)"

definition digitsValue :: "nat \<Rightarrow> string \<Rightarrow> nat" where
  "digitsValue R Z = foldl (\<lambda>acc c. acc * R + (case digitValue c of None \<Rightarrow> 0 | Some d \<Rightarrow> d)) 0 Z"

fun bit_length :: "nat \<Rightarrow> nat" where
  "bit_length n = (if n = 0 then 0 else Suc (bit_length (n div 2)))"

declare bit_length.simps [simp del]

text \<open>
  The double nearest to a natural number, ties to even; \<open>None\<close> when it is beyond the
  largest double (the number is then an infinity). Doubles have 53 significant bits, so
  below \<open>2 ^ 53\<close> every natural number is a double.
\<close>

definition roundToDouble :: "nat \<Rightarrow> nat option" where
  "roundToDouble n =
     (if n < 2 ^ 53 then Some n
      else let e = bit_length n - 53;
               q = n div 2 ^ e;
               r = n mod 2 ^ e;
               m = (if 2 ^ e < 2 * r \<or> (2 * r = 2 ^ e \<and> odd q) then q + 1 else q)
           in if 2 ^ 1024 \<le> m * 2 ^ e then None else Some (m * 2 ^ e))"

definition hasHexPrefix :: "string \<Rightarrow> bool" where
  "hasHexPrefix S = (startsWith S ''0x'' \<or> startsWith S ''0X'')"

definition parseInt :: "string \<Rightarrow> js_number" where
  "parseInt inputString =
     (let S = dropWhile isWhiteSpace inputString;
          negative = (S \<noteq> [] \<and> hd S = CHR ''-'');
          S1 = (if S \<noteq> [] \<and> (hd S = CHR ''+'' \<or> hd S = CHR ''-'') then tl S else S);
          R = (if hasHexPrefix S1 then 16 else 10);
          S2 = (if hasHexPrefix S1 then drop 2 S1 else S1);
          Z = takeWhile (isRadixDigit R) S2
      in if Z = [] then NaN
         else let mathInt = digitsValue R Z
              in if mathInt = 0 then (if negative then NegZero else Finite 0)
                 else (case roundToDouble mathInt of
                         None \<Rightarrow> (if negative then NegInfinity else PosInfinity)
                       | Some v \<Rightarrow> Finite (if negative then - int v else int v)))"

text \<open>The decimal representation of an unsigned integer, as the chain prints an
  escrow identifier into an event attribute.\<close>

definition digitChar :: "nat \<Rightarrow> char" where
  "digitChar d = ''0123456789'' ! d"

fun decimal :: "nat \<Rightarrow> string" where
  "decimal n =
     (if n < 10 then [digitChar n]
      else decimal (n div 10) @ [digitChar (n mod 10)])"

declare decimal.simps [simp del]


section \<open>Messages, transaction results and the CosmWasm client\<close>

text \<open>
  \<open>Uint128\<close> is a decimal string. The types of \<open>@cosmjs\<close> (\<open>Coin\<close>, the events of a
  transaction result) are records; their fields carry a prefix where the SDK's own
  \<open>LockFundsResult\<close> uses the same name.
\<close>

type_synonym Uint128 = string

record Coin =
  coin_denom :: string
  coin_amount :: string

record Attribute =
  attr_key :: string
  attr_value :: string

record Event =
  event_type :: string
  event_attributes :: "Attribute list"

record ExecuteResult =
  result_transactionHash :: string
  result_events :: "Event list"

record LockFundsResult =
  transactionHash :: string
  escrowId :: js_number
  denom :: "string option"

text \<open>The execute messages as the clients build them; an optional member that is left out
  is \<open>None\<close>.\<close>

datatype EscrowExecuteMsg =
    lock_funds string Uint128 string js_number
      \<comment> \<open>\<open>tool_id\<close>, \<open>max_fee\<close>, \<open>auth_token\<close>, \<open>expires\<close>\<close>
  | release js_number Uint128
      \<comment> \<open>\<open>escrow_id\<close>, \<open>usage_fee\<close>\<close>
  | refund_expired js_number
      \<comment> \<open>\<open>escrow_id\<close>\<close>
  | claim_fees "string option"
      \<comment> \<open>\<open>denom\<close>, when the member is there\<close>

datatype RegistryExecuteMsg =
    register_tool string Uint128 "string option" "string option"
      \<comment> \<open>\<open>tool_id\<close>, \<open>price\<close>, \<open>denom\<close>, \<open>description\<close>\<close>
  | update_price string Uint128
  | update_denom string string
  | pause_tool string
  | resume_tool string

datatype ExecuteMsg = EscrowMsg EscrowExecuteMsg | RegistryMsg RegistryExecuteMsg

datatype QueryMsg = get_tool string | get_tools | get_escrow js_number | get_collected_fees

text \<open>One call of \<open>execute(senderAddress, contractAddress, msg, fee, memo, funds)\<close>.\<close>

record ExecuteCall =
  call_sender :: string
  call_contract :: string
  call_msg :: ExecuteMsg
  call_fee :: string
  call_memo :: "string option"
  call_funds :: "Coin list"

text \<open>
  The client object. \<open>queryContractSmart\<close> and \<open>execute\<close> answer for the chain: \<open>Inl\<close> is
  the value a rejected promise carries, \<open>Inr\<close> the value of a fulfilled one. A
  \<open>CosmWasmClient\<close> has no member \<open>execute\<close> (\<open>None\<close>); a \<open>SigningCosmWasmClient\<close> has.
\<close>

record CosmWasmClient =
  queryContractSmart :: "string \<Rightarrow> QueryMsg \<Rightarrow> js_value + js_value"
  execute :: "(ExecuteCall \<Rightarrow> js_value + ExecuteResult) option"


section \<open>EscrowClient\<close>

text \<open>
  A method returns its outcome (\<open>Inl\<close> the thrown value) together with the calls of
  \<open>execute\<close> it has dispatched, in order. A parameter that shares its name with a field
  of \<open>LockFundsResult\<close> carries the suffix \<open>_arg\<close>.
\<close>

record EscrowClient =
  client :: CosmWasmClient
  contractAddress :: string

definition getSigningClient ::
  "EscrowClient \<Rightarrow> js_value + (ExecuteCall \<Rightarrow> js_value + ExecuteResult)" where
  "getSigningClient this =
     (case execute (client this) of
        None \<Rightarrow> Inl (Error ''This method requires a signing client'')
      | Some signing \<Rightarrow> Inr signing)"

text \<open>The body of the inner loop of \<open>lockFunds\<close>, on the pair \<open>(escrowId, denom)\<close>.\<close>

definition lock_attr_step ::
  "js_number \<times> string option \<Rightarrow> Attribute \<Rightarrow> js_number \<times> string option" where
  "lock_attr_step st attr =
     (if attr_key attr = ''escrow_id'' then parseInt (attr_value attr) else fst st,
      if attr_key attr = ''denom'' then Some (attr_value attr) else snd st)"

text \<open>The body of the outer loop.\<close>

definition lock_event_step ::
  "js_number \<times> string option \<Rightarrow> Event \<Rightarrow> js_number \<times> string option" where
  "lock_event_step st event =
     (if event_type event = ''wasm'' then foldl lock_attr_step st (event_attributes event)
      else st)"

definition lockFunds ::
  "EscrowClient \<Rightarrow> string \<Rightarrow> string \<Rightarrow> Uint128 \<Rightarrow> string \<Rightarrow> js_number \<Rightarrow> Coin list option
     \<Rightarrow> string option \<Rightarrow> (js_value + LockFundsResult) \<times> ExecuteCall list" where
  "lockFunds this senderAddress toolId maxFee authToken expires funds memo =
     (case getSigningClient this of
        Inl err \<Rightarrow> (Inl err, [])
      | Inr signingClient \<Rightarrow>
          let msg = EscrowMsg (lock_funds toolId maxFee authToken expires);
              call = \<lparr>call_sender = senderAddress, call_contract = contractAddress this,
                      call_msg = msg, call_fee = ''auto'', call_memo = memo,
                      call_funds = (case funds of None \<Rightarrow> [] | Some fs \<Rightarrow> fs)\<rparr>
          in (case signingClient call of
                Inl err \<Rightarrow> (Inl err, [call])
              | Inr result \<Rightarrow>
                  let st = foldl lock_event_step (Finite 0, None) (result_events result)
                  in (Inr \<lparr>transactionHash = result_transactionHash result,
                           escrowId = fst st, denom = snd st\<rparr>, [call])))"

definition releaseFunds ::
  "EscrowClient \<Rightarrow> string \<Rightarrow> js_number \<Rightarrow> Uint128 \<Rightarrow> Coin list option \<Rightarrow> string option
     \<Rightarrow> (js_value + string) \<times> ExecuteCall list" where
  "releaseFunds this senderAddress escrowId_arg usageFee funds memo =
     (case getSigningClient this of
        Inl err \<Rightarrow> (Inl err, [])
      | Inr signingClient \<Rightarrow>
          let msg = EscrowMsg (release escrowId_arg usageFee);
              call = \<lparr>call_sender = senderAddress, call_contract = contractAddress this,
                      call_msg = msg, call_fee = ''auto'', call_memo = memo,
                      call_funds = (case funds of None \<Rightarrow> [] | Some fs \<Rightarrow> fs)\<rparr>
          in (case signingClient call of
                Inl err \<Rightarrow> (Inl err, [call])
              | Inr result \<Rightarrow> (Inr (result_transactionHash result), [call])))"

definition refundExpired ::
  "EscrowClient \<Rightarrow> string \<Rightarrow> js_number \<Rightarrow> Coin list option \<Rightarrow> string option
     \<Rightarrow> (js_value + string) \<times> ExecuteCall list" where
  "refundExpired this senderAddress escrowId_arg funds memo =
     (case getSigningClient this of
        Inl err \<Rightarrow> (Inl err, [])
      | Inr signingClient \<Rightarrow>
          let msg = EscrowMsg (refund_expired escrowId_arg);
              call = \<lparr>call_sender = senderAddress, call_contract = contractAddress this,
                      call_msg = msg, call_fee = ''auto'', call_memo = memo,
                      call_funds = (case funds of None \<Rightarrow> [] | Some fs \<Rightarrow> fs)\<rparr>
          in (case signingClient call of
                Inl err \<Rightarrow> (Inl err, [call])
              | Inr result \<Rightarrow> (Inr (result_transactionHash result), [call])))"

text \<open>\<open>claim_fees: denom ? { denom } : {}\<close>: the argument is tested for truthiness, and
  the empty string is falsy.\<close>

definition claimFees ::
  "EscrowClient \<Rightarrow> string \<Rightarrow> string option \<Rightarrow> Coin list option \<Rightarrow> string option
     \<Rightarrow> (js_value + string) \<times> ExecuteCall list" where
  "claimFees this senderAddress denom_arg funds memo =
     (case getSigningClient this of
        Inl err \<Rightarrow> (Inl err, [])
      | Inr signingClient \<Rightarrow>
          let msg = EscrowMsg
                (if truthy (case denom_arg of None \<Rightarrow> JsUndefined | Some d \<Rightarrow> JsString d)
                 then claim_fees denom_arg else claim_fees None);
              call = \<lparr>call_sender = senderAddress, call_contract = contractAddress this,
                      call_msg = msg, call_fee = ''auto'', call_memo = memo,
                      call_funds = (case funds of None \<Rightarrow> [] | Some fs \<Rightarrow> fs)\<rparr>
          in (case signingClient call of
                Inl err \<Rightarrow> (Inl err, [call])
              | Inr result \<Rightarrow> (Inr (result_transactionHash result), [call])))"


section \<open>RegistryClient\<close>

record RegistryClient =
  registry_client :: CosmWasmClient
  registry_contractAddress :: string

text \<open>\<open>error instanceof Error\<close>, and the member \<open>message\<close> of such an instance.\<close>

fun instanceof_Error :: "js_value \<Rightarrow> bool" where
  "instanceof_Error (JsError n m) = True"
| "instanceof_Error (PayPerToolError n m c d) = True"
| "instanceof_Error v = False"

fun error_message :: "js_value \<Rightarrow> string" where
  "error_message (JsError n m) = m"
| "error_message (PayPerToolError n m c d) = m"
| "error_message v = []"

text \<open>
  \<open>getTool\<close>. The \<open>try\<close> block either yields the response or throws (the query's own
  failure, or the \<open>Invalid response\<close> error, which the \<open>catch\<close> clause of the same statement
  catches too). The built-in conversion \<open>String(error)\<close> is a parameter.
\<close>

definition getTool ::
  "(js_value \<Rightarrow> string) \<Rightarrow> RegistryClient \<Rightarrow> string \<Rightarrow> js_value + js_value" where
  "getTool String_of this toolId =
     (let query = get_tool toolId;
          attempt =
            (case queryContractSmart (registry_client this) (registry_contractAddress this) query of
               Inl err \<Rightarrow> Inl err
             | Inr response \<Rightarrow>
                 if \<not> truthy response \<or> typeof response \<noteq> ''object''
                 then Inl (Error ''Invalid response from registry contract'')
                 else Inr response)
      in case attempt of
           Inr response \<Rightarrow> Inr response
         | Inl err \<Rightarrow>
             if instanceof_Error err then
               if includes_str (error_message err) ''not found''
                  \<or> includes_str (error_message err) ''No such tool''
               then Inl (Error (''Tool '' @ [CHR 0x27] @ toolId @ [CHR 0x27] @ '' not found in registry''))
               else Inl err
             else Inl (Error (''Failed to query tool: '' @ String_of err)))"

definition registry_getSigningClient ::
  "RegistryClient \<Rightarrow> js_value + (ExecuteCall \<Rightarrow> js_value + ExecuteResult)" where
  "registry_getSigningClient this =
     (case execute (registry_client this) of
        None \<Rightarrow> Inl (Error ''This method requires a signing client'')
      | Some signing \<Rightarrow> Inr signing)"

definition registerTool ::
  "RegistryClient \<Rightarrow> string \<Rightarrow> string \<Rightarrow> Uint128 \<Rightarrow> Coin list option
     \<Rightarrow> (js_value + string) \<times> ExecuteCall list" where
  "registerTool this senderAddress toolId price funds =
     (case registry_getSigningClient this of
        Inl err \<Rightarrow> (Inl err, [])
      | Inr signingClient \<Rightarrow>
          let msg = RegistryMsg (register_tool toolId price None None);
              call = \<lparr>call_sender = senderAddress, call_contract = registry_contractAddress this,
                      call_msg = msg, call_fee = ''auto'', call_memo = None,
                      call_funds = (case funds of None \<Rightarrow> [] | Some fs \<Rightarrow> fs)\<rparr>
          in (case signingClient call of
                Inl err \<Rightarrow> (Inl err, [call])
              | Inr result \<Rightarrow> (Inr (result_transactionHash result), [call])))"

definition updatePrice ::
  "RegistryClient \<Rightarrow> string \<Rightarrow> string \<Rightarrow> Uint128 \<Rightarrow> Coin list option
     \<Rightarrow> (js_value + string) \<times> ExecuteCall list" where
  "updatePrice this senderAddress toolId price funds =
     (case registry_getSigningClient this of
        Inl err \<Rightarrow> (Inl err, [])
      | Inr signingClient \<Rightarrow>
          let msg = RegistryMsg (update_price toolId price);
              call = \<lparr>call_sender = senderAddress, call_contract = registry_contractAddress this,
                      call_msg = msg, call_fee = ''auto'', call_memo = None,
                      call_funds = (case funds of None \<Rightarrow> [] | Some fs \<Rightarrow> fs)\<rparr>
          in (case signingClient call of
                Inl err \<Rightarrow> (Inl err, [call])
              | Inr result \<Rightarrow> (Inr (result_transactionHash result), [call])))"

definition pauseTool ::
  "RegistryClient \<Rightarrow> string \<Rightarrow> string \<Rightarrow> Coin list option
     \<Rightarrow> (js_value + string) \<times> ExecuteCall list" where
  "pauseTool this senderAddress toolId funds =
     (case registry_getSigningClient this of
        Inl err \<Rightarrow> (Inl err, [])
      | Inr signingClient \<Rightarrow>
          let msg = RegistryMsg (pause_tool toolId);
              call = \<lparr>call_sender = senderAddress, call_contract = registry_contractAddress this,
                      call_msg = msg, call_fee = ''auto'', call_memo = None,
                      call_funds = (case funds of None \<Rightarrow> [] | Some fs \<Rightarrow> fs)\<rparr>
          in (case signingClient call of
                Inl err \<Rightarrow> (Inl err, [call])
              | Inr result \<Rightarrow> (Inr (result_transactionHash result), [call])))"

definition resumeTool ::
  "RegistryClient \<Rightarrow> string \<Rightarrow> string \<Rightarrow> Coin list option
     \<Rightarrow> (js_value + string) \<times> ExecuteCall list" where
  "resumeTool this senderAddress toolId funds =
     (case registry_getSigningClient this of
        Inl err \<Rightarrow> (Inl err, [])
      | Inr signingClient \<Rightarrow>
          let msg = RegistryMsg (resume_tool toolId);
              call = \<lparr>call_sender = senderAddress, call_contract = registry_contractAddress this,
                      call_msg = msg, call_fee = ''auto'', call_memo = None,
                      call_funds = (case funds of None \<Rightarrow> [] | Some fs \<Rightarrow> fs)\<rparr>
          in (case signingClient call of
                Inl err \<Rightarrow> (Inl err, [call])
              | Inr result \<Rightarrow> (Inr (result_transactionHash result), [call])))"

text \<open>
  The interface \<open>ToolResponse\<close> of \<open>types/registry.ts\<close>, as a test on a value: an object
  whose members \<open>tool_id\<close>, \<open>provider\<close>, \<open>price\<close>, \<open>denom\<close> and \<open>description\<close> are strings
  and whose member \<open>is_active\<close> is a boolean.
\<close>

definition has_string_member :: "(string \<times> js_property) list \<Rightarrow> string \<Rightarrow> bool" where
  "has_string_member props k =
     (case map_of props k of Some (DataProperty (JsString s)) \<Rightarrow> True | _ \<Rightarrow> False)"

definition has_boolean_member :: "(string \<times> js_property) list \<Rightarrow> string \<Rightarrow> bool" where
  "has_boolean_member props k =
     (case map_of props k of Some (DataProperty (JsBoolean b)) \<Rightarrow> True | _ \<Rightarrow> False)"

fun is_ToolResponse :: "js_value \<Rightarrow> bool" where
  "is_ToolResponse (JsObject props) =
     (has_string_member props ''tool_id'' \<and> has_string_member props ''provider''
      \<and> has_string_member props ''price'' \<and> has_string_member props ''denom''
      \<and> has_boolean_member props ''is_active'' \<and> has_string_member props ''description'')"
| "is_ToolResponse v = False"


section \<open>Error classes and \<open>normalizeError\<close>\<close>

text \<open>
  The constructor of \<open>PayPerToolError\<close>: \<open>name\<close> is the name of the class that is being
  constructed, \<open>code\<close> defaults to \<open>TOOLPAY_ERROR\<close>, and \<open>details || {}\<close> is the empty
  object when no details are given (an object is always truthy).
\<close>

definition new_PayPerToolError ::
  "string \<Rightarrow> string \<Rightarrow> string option \<Rightarrow> (string \<times> js_property) list option \<Rightarrow> js_value" where
  "new_PayPerToolError constructor_name msg code_arg details_arg =
     PayPerToolError constructor_name msg
       (case code_arg of None \<Rightarrow> ''TOOLPAY_ERROR'' | Some c \<Rightarrow> c)
       (case details_arg of None \<Rightarrow> [] | Some d \<Rightarrow> d)"

definition new_ConfigurationError :: "string \<Rightarrow> (string \<times> js_property) list option \<Rightarrow> js_value" where
  "new_ConfigurationError msg details_arg =
     new_PayPerToolError ''ConfigurationError'' msg (Some ''CONFIGURATION_ERROR'') details_arg"

definition new_NetworkError :: "string \<Rightarrow> (string \<times> js_property) list option \<Rightarrow> js_value" where
  "new_NetworkError msg details_arg =
     new_PayPerToolError ''NetworkError'' msg (Some ''NETWORK_ERROR'') details_arg"

definition new_ContractError :: "string \<Rightarrow> (string \<times> js_property) list option \<Rightarrow> js_value" where
  "new_ContractError msg details_arg =
     new_PayPerToolError ''ContractError'' msg (Some ''CONTRACT_ERROR'') details_arg"

definition new_EscrowVerificationError ::
  "string \<Rightarrow> (string \<times> js_property) list option \<Rightarrow> js_value" where
  "new_EscrowVerificationError msg details_arg =
     new_PayPerToolError ''EscrowVerificationError'' msg (Some ''ESCROW_VERIFICATION_ERROR'')
       details_arg"

definition new_UsageReportingError ::
  "string \<Rightarrow> (string \<times> js_property) list option \<Rightarrow> js_value" where
  "new_UsageReportingError msg details_arg =
     new_PayPerToolError ''UsageReportingError'' msg (Some ''USAGE_REPORTING_ERROR'') details_arg"

definition new_WalletError :: "string \<Rightarrow> (string \<times> js_property) list option \<Rightarrow> js_value" where
  "new_WalletError msg details_arg =
     new_PayPerToolError ''WalletError'' msg (Some ''WALLET_ERROR'') details_arg"

fun instanceof_PayPerToolError :: "js_value \<Rightarrow> bool" where
  "instanceof_PayPerToolError (PayPerToolError n m c d) = True"
| "instanceof_PayPerToolError v = False"

text \<open>
  The property \<open>message\<close> of an object, own or inherited: \<open>None\<close> when
  \<open>'message' in obj\<close> is false. (\<open>hasMessage\<close> consults it for values of type \<open>object\<close>
  only.)
\<close>

fun message_property :: "js_value \<Rightarrow> js_property option" where
  "message_property (JsObject props) = map_of props ''message''"
| "message_property (JsError n m) = Some (DataProperty (JsString m))"
| "message_property (PayPerToolError n m c d) = Some (DataProperty (JsString m))"
| "message_property v = None"

text \<open>
  The type guard \<open>hasMessage\<close>. The conjunction is evaluated from the left;
  \<open>typeof obj.message\<close> reads the property, so a getter that throws makes the guard
  throw.
\<close>

definition hasMessage :: "js_value \<Rightarrow> js_value + bool" where
  "hasMessage obj =
     (if typeof obj = ''object'' \<and> obj \<noteq> JsNull then
        (case message_property obj of
           None \<Rightarrow> Inr False
         | Some p \<Rightarrow>
             (case read_property p of
                Inl thrown \<Rightarrow> Inl thrown
              | Inr v \<Rightarrow> Inr (typeof v = ''string'')))
      else Inr False)"

text \<open>\<open>error.message\<close>, read a second time once \<open>hasMessage(error)\<close> has held (the empty
  string stands for the cases that \<open>normalizeError\<close> never reaches).\<close>

definition read_message :: "js_value \<Rightarrow> js_value + string" where
  "read_message obj =
     (case message_property obj of
        None \<Rightarrow> Inr []
      | Some p \<Rightarrow>
          (case read_property p of
             Inl thrown \<Rightarrow> Inl thrown
           | Inr (JsString m) \<Rightarrow> Inr m
           | Inr v \<Rightarrow> Inr []))"

text \<open>\<open>const message = hasMessage(error) ? error.message : defaultMessage\<close>.\<close>

definition select_message :: "js_value \<Rightarrow> string \<Rightarrow> js_value + string" where
  "select_message error defaultMessage =
     (case hasMessage error of
        Inl thrown \<Rightarrow> Inl thrown
      | Inr has \<Rightarrow> if has then read_message error else Inr defaultMessage)"

text \<open>\<open>normalizeError\<close>: \<open>Inl\<close> is the value thrown, \<open>Inr\<close> the error returned.\<close>

definition normalizeError :: "js_value \<Rightarrow> string option \<Rightarrow> js_value + js_value" where
  "normalizeError error defaultMessage_arg =
     (let defaultMessage = (case defaultMessage_arg of None \<Rightarrow> ''Unknown error'' | Some d \<Rightarrow> d)
      in if instanceof_PayPerToolError error then Inr error
         else
           (case select_message error defaultMessage of
              Inl thrown \<Rightarrow> Inl thrown
            | Inr msg \<Rightarrow>
                Inr (if includes_str msg ''network'' \<or> includes_str msg ''connection''
                       \<or> includes_str msg ''timeout''
                     then new_NetworkError msg (Some [(''originalError'', DataProperty error)])
                     else if includes_str msg ''wallet'' \<or> includes_str msg ''signer''
                       \<or> includes_str msg ''account''
                     then new_WalletError msg (Some [(''originalError'', DataProperty error)])
                     else if includes_str msg ''contract'' \<or> includes_str msg ''execute''
                       \<or> includes_str msg ''query''
                     then new_ContractError msg (Some [(''originalError'', DataProperty error)])
                     else new_PayPerToolError ''PayPerToolError'' msg (Some ''UNKNOWN_ERROR'')
                            (Some [(''originalError'', DataProperty error)]))))"

text \<open>
  A value whose property \<open>message\<close>, if it has one, is a data property: every primitive,
  every instance of \<open>Error\<close> or \<open>PayPerToolError\<close>, and every object that holds no
  accessor under \<open>message\<close>.
\<close>

definition message_is_data :: "js_value \<Rightarrow> bool" where
  "message_is_data v =
     (case message_property v of Some (AccessorProperty outcome) \<Rightarrow> False | _ \<Rightarrow> True)"


section \<open>The attributes carried by the wasm events\<close>

text \<open>
  \<open>wasm_attribute_values k events\<close> lists the values of the attributes with key \<open>k\<close> on
  the events of type \<open>wasm\<close>, in event order. It is a specification function, not a
  function of the SDK: the theorems about \<open>lockFunds\<close> compare the loop of the method
  with it.
\<close>

definition wasm_attribute_values :: "string \<Rightarrow> Event list \<Rightarrow> string list" where
  "wasm_attribute_values k evs =
     map attr_value
       (filter (\<lambda>a. attr_key a = k)
          (concat (map event_attributes (filter (\<lambda>e. event_type e = ''wasm'') evs))))"


section \<open>Example clients\<close>

text \<open>
  Two concrete clients for the examples that accompany the theorems: a signing client
  whose \<open>execute\<close> commits every call with a given result, and a read-only client whose
  queries all give one answer.
\<close>

definition signing_client :: "ExecuteResult \<Rightarrow> CosmWasmClient" where
  "signing_client result =
     \<lparr>queryContractSmart = (\<lambda>address query. Inl (Error ''query failed'')),
      execute = Some (\<lambda>call. Inr result)\<rparr>"

definition readonly_client :: "js_value + js_value \<Rightarrow> CosmWasmClient" where
  "readonly_client answer =
     \<lparr>queryContractSmart = (\<lambda>address query. answer), execute = None\<rparr>"

definition wasm_event :: "(string \<times> string) list \<Rightarrow> Event" where
  "wasm_event kvs =
     \<lparr>event_type = ''wasm'',
      event_attributes = map (\<lambda>(k, v). \<lparr>attr_key = k, attr_value = v\<rparr>) kvs\<rparr>"


section \<open>Theorems\<close>

lemma protocol_fee_le: "fee_percentage \<le> 100 \<Longrightarrow> protocol_fee usage_fee fee_percentage \<le> usage_fee"
proof -
  assume "fee_percentage \<le> 100"
  then have "usage_fee * fee_percentage \<le> usage_fee * 100"
    by (rule mult_le_mono2)
  then have "usage_fee * fee_percentage div 100 \<le> usage_fee * 100 div 100"
    by (rule div_le_mono)
  then show ?thesis
    by (simp add: protocol_fee_def)
qed

text \<open>
  Claim C1. Whenever \<open>usage_fee \<le> ceiling_fee\<close> and \<open>fee_percentage \<le> 100\<close>, the protocol
  fee does not exceed the usage fee (no subtraction is cut off) and provider amount,
  protocol fee and caller refund add up to the ceiling fee exactly. For a ceiling of
  1,000,000, a fee percentage of 10 and a usage fee of 600,000 the provider receives
  540,000, the protocol 60,000 and the caller 400,000.
\<close>

theorem release_split_conserves:
  "(usage_fee \<le> ceiling_fee \<and> fee_percentage \<le> 100 \<longrightarrow>
      protocol_fee usage_fee fee_percentage \<le> usage_fee \<and>
      provider_amount usage_fee fee_percentage + protocol_fee usage_fee fee_percentage
        + caller_refund ceiling_fee usage_fee = ceiling_fee)
   \<and> provider_amount 600000 10 = 540000
   \<and> protocol_fee 600000 10 = 60000
   \<and> caller_refund 1000000 600000 = 400000"
proof -
  have general: "protocol_fee usage_fee fee_percentage \<le> usage_fee \<and>
      provider_amount usage_fee fee_percentage + protocol_fee usage_fee fee_percentage
        + caller_refund ceiling_fee usage_fee = ceiling_fee"
    if "usage_fee \<le> ceiling_fee" "fee_percentage \<le> 100"
    using that protocol_fee_le [of fee_percentage usage_fee]
    by (simp add: provider_amount_def caller_refund_def)
  have scenario: "provider_amount 600000 10 = 540000 \<and> protocol_fee 600000 10 = 60000
      \<and> caller_refund 1000000 600000 = 400000"
    by (simp add: provider_amount_def protocol_fee_def caller_refund_def)
  from general scenario show ?thesis by blast
qed

theorem release_split_conserves_witness:
  "(600000::nat) \<le> 1000000 \<and> (10::nat) \<le> 100
   \<and> protocol_fee 600000 10 \<le> 600000
   \<and> provider_amount 600000 10 + protocol_fee 600000 10 + caller_refund 1000000 600000 = 1000000"
  using release_split_conserves [of 600000 1000000 10] by simp


subsection \<open>Reading digits\<close>

lemma digit_cases:
  "d < 10 \<Longrightarrow> d = 0 \<or> d = 1 \<or> d = 2 \<or> d = 3 \<or> d = 4 \<or> d = 5 \<or> d = 6 \<or> d = 7 \<or> d = 8 \<or> d = (9::nat)"
  by arith

lemma digitChar_props:
  assumes "d < 10"
  shows "digitValue (digitChar d) = Some d"
    and "\<not> isWhiteSpace (digitChar d)"
    and "digitChar d \<noteq> CHR ''+''" and "digitChar d \<noteq> CHR ''-''"
    and "digitChar d \<noteq> CHR ''x''" and "digitChar d \<noteq> CHR ''X''"
  using digit_cases [OF assms]
  by (auto simp add: digitChar_def digitValue_def isWhiteSpace_def Let_def)

lemma decimal_ne: "decimal n \<noteq> []"
  by (subst decimal.simps) simp

lemma decimal_chars: "c \<in> set (decimal n) \<Longrightarrow> \<exists>d<10. c = digitChar d"
proof (induction n arbitrary: c rule: decimal.induct)
  case (1 n)
  show ?case
  proof (cases "n < 10")
    case True
    with "1.prems" show ?thesis by (subst (asm) decimal.simps) auto
  next
    case False
    from "1.prems" have "c \<in> set (decimal (n div 10)) \<or> c = digitChar (n mod 10)"
      using False by (subst (asm) decimal.simps) auto
    then show ?thesis
    proof
      assume "c \<in> set (decimal (n div 10))"
      with "1.IH" False show ?thesis by blast
    next
      assume "c = digitChar (n mod 10)"
      moreover have "n mod 10 < 10" by simp
      ultimately show ?thesis by blast
    qed
  qed
qed

lemma digitsValue_snoc:
  "digitsValue R (Z @ [c]) =
     digitsValue R Z * R + (case digitValue c of None \<Rightarrow> 0 | Some d \<Rightarrow> d)"
  by (simp add: digitsValue_def)

lemma digitsValue_decimal: "digitsValue 10 (decimal n) = n"
proof (induction n rule: decimal.induct)
  case (1 n)
  show ?case
  proof (cases "n < 10")
    case True
    then show ?thesis
      by (subst decimal.simps) (simp add: digitsValue_def digitChar_props)
  next
    case False
    have "digitsValue 10 (decimal n) = digitsValue 10 (decimal (n div 10)) * 10 + n mod 10"
      using False by (subst decimal.simps) (simp add: digitsValue_snoc digitChar_props)
    with "1.IH" False show ?thesis by simp
  qed
qed

lemma startsWith_mem: "startsWith S [a, b] \<Longrightarrow> b \<in> set S"
  by (cases S; cases "tl S") auto

lemma decimal_no_hex: "\<not> hasHexPrefix (decimal n)"
proof
  assume "hasHexPrefix (decimal n)"
  then have "CHR ''x'' \<in> set (decimal n) \<or> CHR ''X'' \<in> set (decimal n)"
    unfolding hasHexPrefix_def using startsWith_mem by blast
  then obtain d where "d < 10" "digitChar d = CHR ''x'' \<or> digitChar d = CHR ''X''"
    using decimal_chars by metis
  then show False
    using digitChar_props(5,6) by blast
qed

lemma decimal_all:
  "c \<in> set (decimal n) \<Longrightarrow>
     \<not> isWhiteSpace c \<and> c \<noteq> CHR ''+'' \<and> c \<noteq> CHR ''-'' \<and> isRadixDigit 10 c"
  using decimal_chars [of c n] digitChar_props by (fastforce simp add: isRadixDigit_def)

lemma decimal_hd: "hd (decimal n) \<noteq> CHR ''-''" "hd (decimal n) \<noteq> CHR ''+''"
  "\<not> isWhiteSpace (hd (decimal n))"
  using decimal_all [of "hd (decimal n)" n] decimal_ne [of n] by simp_all

lemma decimal_dropWhile: "dropWhile isWhiteSpace (decimal n) = decimal n"
  using decimal_hd(3) [of n] decimal_ne [of n] by (cases "decimal n") auto

lemma decimal_takeWhile: "takeWhile (isRadixDigit 10) (decimal n) = decimal n"
  using decimal_all by simp

text \<open>Parsing the decimal representation of \<open>n\<close> gives the double nearest to \<open>n\<close>.\<close>

lemma parseInt_decimal:
  "parseInt (decimal n) =
     (if n = 0 then Finite 0
      else case roundToDouble n of None \<Rightarrow> PosInfinity | Some v \<Rightarrow> Finite (int v))"
  by (simp add: parseInt_def decimal_dropWhile decimal_takeWhile decimal_hd decimal_ne
      decimal_no_hex digitsValue_decimal Let_def split: option.split)

lemma bit_length_numeral:
  "bit_length (numeral (Num.Bit0 k)) = Suc (bit_length (numeral k))"
  "bit_length (numeral (Num.Bit1 k)) = Suc (bit_length (numeral k))"
  "bit_length (Suc 0) = Suc 0" "bit_length 0 = 0"
  by (subst bit_length.simps, simp)+

lemma roundToDouble_exact: "n \<le> 2 ^ 53 \<Longrightarrow> roundToDouble n = Some n"
proof (cases "n < 2 ^ 53")
  case True
  then show ?thesis by (simp add: roundToDouble_def)
next
  case False
  assume "n \<le> 2 ^ 53"
  with False have "n = 9007199254740992" by simp
  then show ?thesis
    by (simp add: roundToDouble_def bit_length_numeral Let_def)
qed

lemma parseInt_decimal_exact: "n \<le> 2 ^ 53 \<Longrightarrow> parseInt (decimal n) = Finite (int n)"
  by (simp add: parseInt_decimal roundToDouble_exact)


subsection \<open>Rounding to the nearest double\<close>

text \<open>
  For \<open>2 ^ (52 + e) \<le> n < 2 ^ (53 + e)\<close> the doubles around \<open>n\<close> are the multiples of
  \<open>2 ^ e\<close>. \<open>roundToDouble\<close> yields the multiple nearest to \<open>n\<close>, the one with the even
  quotient when two are equally near, and it yields \<open>n\<close> itself exactly when \<open>2 ^ e\<close>
  divides \<open>n\<close>.
\<close>

lemma bit_length_pos: "0 < n \<Longrightarrow> 0 < bit_length n"
  by (subst bit_length.simps) simp

lemma bit_length_bounds: "0 < n \<Longrightarrow> 2 ^ (bit_length n - 1) \<le> n \<and> n < 2 ^ bit_length n"
proof (induction n rule: bit_length.induct)
  case (1 n)
  from "1.prems" have bl: "bit_length n = Suc (bit_length (n div 2))"
    by (subst bit_length.simps) simp
  show ?case
  proof (cases "n div 2 = 0")
    case True
    with "1.prems" have "n = 1" by arith
    then show ?thesis by (simp add: bit_length_numeral)
  next
    case False
    then have pos: "0 < n div 2" by simp
    from "1.prems" have "n \<noteq> 0" by simp
    from "1.IH" [OF this pos]
    have ih: "2 ^ (bit_length (n div 2) - 1) \<le> n div 2 \<and> n div 2 < 2 ^ bit_length (n div 2)" .
    from bit_length_pos [OF pos] obtain k where k: "bit_length (n div 2) = Suc k"
      by (cases "bit_length (n div 2)") auto
    define P :: nat where "P = 2 ^ k"
    from ih k have a: "P \<le> n div 2" and b: "n div 2 < 2 * P"
      by (simp_all add: P_def)
    from a have lo: "2 * P \<le> n" by arith
    from b have hi: "n < 2 * (2 * P)" by arith
    from lo hi show ?thesis
      by (simp add: bl k P_def)
  qed
qed

lemma binade:
  assumes "2 ^ 53 \<le> n"
  shows "2 ^ (52 + (bit_length n - 53)) \<le> n \<and> n < 2 ^ (53 + (bit_length n - 53))"
proof -
  from assms have pos: "0 < n" by (cases n) simp_all
  note b = bit_length_bounds [OF pos]
  from assms b have "(2::nat) ^ 53 < 2 ^ bit_length n" by linarith
  with power_less_imp_less_exp [of 2 53 "bit_length n"] have "53 < bit_length n" by simp
  then have "52 + (bit_length n - 53) = bit_length n - 1" "53 + (bit_length n - 53) = bit_length n"
    by simp_all
  with b show ?thesis by simp
qed

lemma bit_length_u64: "n < 2 ^ 64 \<Longrightarrow> bit_length n \<le> 64"
proof (cases "n = 0")
  case True
  then show ?thesis by (simp add: bit_length_numeral)
next
  case False
  assume "n < 2 ^ 64"
  with bit_length_bounds [of n] False have "(2::nat) ^ (bit_length n - 1) < 2 ^ 64" by simp
  with power_less_imp_less_exp [of 2 "bit_length n - 1" 64] have "bit_length n - 1 < 64" by simp
  then show ?thesis by simp
qed

lemma round_core:
  fixes n e :: nat
  defines "q \<equiv> n div 2 ^ e" and "r \<equiv> n mod 2 ^ e"
  defines "m \<equiv> (if 2 ^ e < 2 * r \<or> (2 * r = 2 ^ e \<and> odd q) then q + 1 else q)"
  shows "(m * 2 ^ e) div 2 ^ e = m"
    and "2 * \<bar>int (m * 2 ^ e) - int n\<bar> \<le> 2 ^ e"
    and "2 * \<bar>int (m * 2 ^ e) - int n\<bar> = 2 ^ e \<longrightarrow> even m"
    and "m * 2 ^ e = n \<longleftrightarrow> 2 ^ e dvd n"
    and "m * 2 ^ e \<le> n + 2 ^ e"
proof -
  define P :: nat where "P = 2 ^ e"
  define X where "X = q * P"
  have Ppos: "0 < P" by (simp add: P_def)
  have n: "n = X + r"
    using div_mult_mod_eq [of n "2 ^ e"] by (simp add: X_def q_def r_def P_def)
  have r: "r < P" by (simp add: r_def P_def)
  have dvd: "P dvd n \<longleftrightarrow> r = 0"
    by (simp add: r_def P_def dvd_eq_mod_eq_0)
  have intP: "(2::int) ^ e = int P" by (simp add: P_def)
  have all: "2 * \<bar>int (m * P) - int n\<bar> \<le> int P
      \<and> (2 * \<bar>int (m * P) - int n\<bar> = int P \<longrightarrow> even m)
      \<and> (m * P = n \<longleftrightarrow> r = 0) \<and> m * P \<le> n + P"
  proof (cases "P < 2 * r \<or> (2 * r = P \<and> odd q)")
    case True
    then have m: "m = q + 1" by (simp add: m_def P_def)
    then have v: "m * P = X + P" by (simp add: X_def algebra_simps)
    have d: "\<bar>int (m * P) - int n\<bar> = int P - int r"
      unfolding v n using r by simp
    have near: "2 * (int P - int r) \<le> int P" using True by arith
    have tie: "even m" if "2 * (int P - int r) = int P"
    proof -
      from that have "2 * r = P" by arith
      with True have "odd q" by simp
      with m show ?thesis by simp
    qed
    have ne: "r \<noteq> 0" using True Ppos by arith
    have neq: "m * P \<noteq> n" unfolding v n using r by simp
    from near tie ne neq show ?thesis
      unfolding d by (simp add: v n)
  next
    case False
    then have m: "m = q" by (simp add: m_def P_def)
    then have v: "m * P = X" by (simp add: X_def)
    have d: "\<bar>int (m * P) - int n\<bar> = int r"
      unfolding v n by simp
    have near: "2 * int r \<le> int P" using False by arith
    have tie: "even m" if "2 * int r = int P"
    proof -
      from that have "2 * r = P" by arith
      with False have "even q" by simp
      with m show ?thesis by simp
    qed
    from near tie show ?thesis
      unfolding d by (simp add: v n)
  qed
  show "(m * 2 ^ e) div 2 ^ e = m" by simp
  from all show "2 * \<bar>int (m * 2 ^ e) - int n\<bar> \<le> 2 ^ e"
    unfolding intP P_def [symmetric] by simp
  from all show "2 * \<bar>int (m * 2 ^ e) - int n\<bar> = 2 ^ e \<longrightarrow> even m"
    unfolding intP P_def [symmetric] by simp
  from all dvd show "m * 2 ^ e = n \<longleftrightarrow> 2 ^ e dvd n"
    unfolding P_def [symmetric] by simp
  from all show "m * 2 ^ e \<le> n + 2 ^ e"
    unfolding P_def [symmetric] by simp
qed

lemma roundToDouble_nearest:
  assumes lo: "2 ^ 53 \<le> n" and hi: "n < 2 ^ 64"
  shows "\<exists>v e. roundToDouble n = Some v
           \<and> 2 ^ (52 + e) \<le> n \<and> n < 2 ^ (53 + e)
           \<and> 2 ^ e dvd v
           \<and> 2 * \<bar>int v - int n\<bar> \<le> 2 ^ e
           \<and> (2 * \<bar>int v - int n\<bar> = 2 ^ e \<longrightarrow> even (v div 2 ^ e))
           \<and> (v = n \<longleftrightarrow> 2 ^ e dvd n)"
proof -
  define e where "e = bit_length n - 53"
  define q where "q = n div 2 ^ e"
  define r where "r = n mod 2 ^ e"
  define m where "m = (if 2 ^ e < 2 * r \<or> (2 * r = 2 ^ e \<and> odd q) then q + 1 else q)"
  define v where "v = m * 2 ^ e"
  note core = round_core [where n = n and e = e]
  have c1: "v div 2 ^ e = m"
    unfolding v_def m_def q_def r_def by (rule core(1))
  have c2: "2 * \<bar>int v - int n\<bar> \<le> 2 ^ e"
    unfolding v_def m_def q_def r_def by (rule core(2))
  have c3: "2 * \<bar>int v - int n\<bar> = 2 ^ e \<longrightarrow> even m"
    unfolding v_def m_def q_def r_def by (rule core(3))
  have c4: "v = n \<longleftrightarrow> 2 ^ e dvd n"
    unfolding v_def m_def q_def r_def by (rule core(4))
  have c5: "v \<le> n + 2 ^ e"
    unfolding v_def m_def q_def r_def by (rule core(5))
  have "e \<le> 11"
    using bit_length_u64 [OF hi] by (simp add: e_def)
  then have "(2::nat) ^ e \<le> 2 ^ 11"
    by (rule power_increasing) simp
  with c5 hi have small: "v < 2 ^ 1024" by simp
  have nlt: "\<not> n < 2 ^ 53" using lo by simp
  have "roundToDouble n = (if 2 ^ 1024 \<le> v then None else Some v)"
    unfolding roundToDouble_def Let_def v_def m_def q_def r_def e_def
    by (simp only: nlt if_False)
  with small have run: "roundToDouble n = Some v" by simp
  have dv: "2 ^ e dvd v" by (simp add: v_def)
  from run binade [OF lo, folded e_def] dv c2 c3 c4 c1 show ?thesis
    by (intro exI [of _ v] exI [of _ e]) simp
qed

lemma parseInt_decimal_u64:
  assumes "n < 2 ^ 64"
  shows "\<exists>v. parseInt (decimal n) = Finite (int v)
           \<and> (n \<le> 2 ^ 53 \<longrightarrow> v = n)
           \<and> (2 ^ 53 \<le> n \<longrightarrow>
                (\<exists>e. 2 ^ (52 + e) \<le> n \<and> n < 2 ^ (53 + e)
                   \<and> 2 ^ e dvd v
                   \<and> 2 * \<bar>int v - int n\<bar> \<le> 2 ^ e
                   \<and> (2 * \<bar>int v - int n\<bar> = 2 ^ e \<longrightarrow> even (v div 2 ^ e))
                   \<and> (v = n \<longleftrightarrow> 2 ^ e dvd n)))"
proof (cases "n < 2 ^ 53")
  case True
  then have "parseInt (decimal n) = Finite (int n)"
    by (simp add: parseInt_decimal_exact)
  with True show ?thesis by auto
next
  case False
  then have lo: "2 ^ 53 \<le> n" by simp
  from roundToDouble_nearest [OF lo assms] obtain v e where
    run: "roundToDouble n = Some v"
    and near: "2 ^ (52 + e) \<le> n \<and> n < 2 ^ (53 + e)
           \<and> 2 ^ e dvd v
           \<and> 2 * \<bar>int v - int n\<bar> \<le> 2 ^ e
           \<and> (2 * \<bar>int v - int n\<bar> = 2 ^ e \<longrightarrow> even (v div 2 ^ e))
           \<and> (v = n \<longleftrightarrow> 2 ^ e dvd n)"
    by blast
  from lo have "n \<noteq> 0" by auto
  with run have p: "parseInt (decimal n) = Finite (int v)"
    by (simp add: parseInt_decimal)
  have exact: "n \<le> 2 ^ 53 \<longrightarrow> v = n"
    using roundToDouble_exact [of n] run by auto
  from p exact near show ?thesis by blast
qed


subsection \<open>The loop of \<open>lockFunds\<close>\<close>

lemma fst_foldl_attr:
  "fst (foldl lock_attr_step st as) =
     (let vs = map attr_value (filter (\<lambda>a. attr_key a = ''escrow_id'') as)
      in if vs = [] then fst st else parseInt (last vs))"
  by (induction as rule: rev_induct) (simp_all add: lock_attr_step_def Let_def)

lemma snd_foldl_attr:
  "snd (foldl lock_attr_step st as) =
     (let vs = map attr_value (filter (\<lambda>a. attr_key a = ''denom'') as)
      in if vs = [] then snd st else Some (last vs))"
  by (induction as rule: rev_induct) (simp_all add: lock_attr_step_def Let_def)

lemma fst_foldl_event:
  "fst (foldl lock_event_step st evs) =
     (if wasm_attribute_values ''escrow_id'' evs = [] then fst st
      else parseInt (last (wasm_attribute_values ''escrow_id'' evs)))"
  by (induction evs rule: rev_induct)
    (simp_all add: lock_event_step_def wasm_attribute_values_def fst_foldl_attr Let_def
      last_append)

lemma snd_foldl_event:
  "snd (foldl lock_event_step st evs) =
     (if wasm_attribute_values ''denom'' evs = [] then snd st
      else Some (last (wasm_attribute_values ''denom'' evs)))"
  by (induction evs rule: rev_induct)
    (simp_all add: lock_event_step_def wasm_attribute_values_def snd_foldl_attr Let_def
      last_append)

text \<open>What \<open>lockFunds\<close> returns once \<open>execute\<close> has committed the call.\<close>

lemma lockFunds_committed:
  fixes this senderAddress toolId maxFee authToken expires funds memo
  defines "call \<equiv> \<lparr>call_sender = senderAddress, call_contract = contractAddress this,
      call_msg = EscrowMsg (lock_funds toolId maxFee authToken expires), call_fee = ''auto'',
      call_memo = memo, call_funds = (case funds of None \<Rightarrow> [] | Some fs \<Rightarrow> fs)\<rparr>"
  assumes "execute (client this) = Some ex" and "ex call = Inr result"
  shows "lockFunds this senderAddress toolId maxFee authToken expires funds memo =
     (Inr \<lparr>transactionHash = result_transactionHash result,
           escrowId =
             (if wasm_attribute_values ''escrow_id'' (result_events result) = [] then Finite 0
              else parseInt (last (wasm_attribute_values ''escrow_id'' (result_events result)))),
           denom =
             (if wasm_attribute_values ''denom'' (result_events result) = [] then None
              else Some (last (wasm_attribute_values ''denom'' (result_events result))))\<rparr>,
      [call])"
  using assms
  by (simp add: lockFunds_def getSigningClient_def fst_foldl_event snd_foldl_event Let_def)

lemma singleton_last: "set xs = {x} \<Longrightarrow> xs \<noteq> [] \<and> last xs = x"
proof -
  assume a: "set xs = {x}"
  then have ne: "xs \<noteq> []" by auto
  then have "last xs \<in> set xs" by (rule last_in_set)
  with a ne show ?thesis by simp
qed

lemma parseInt_examples:
  "parseInt ''1'' = Finite 1" "parseInt ''2'' = Finite 2" "parseInt ''12'' = Finite 12"
  "parseInt ''42'' = Finite 42"
  by (simp_all add: parseInt_def isWhiteSpace_def hasHexPrefix_def isRadixDigit_def
      digitValue_def digitsValue_def roundToDouble_def Let_def)

lemma roundToDouble_odd: "roundToDouble 9007199254740993 = Some 9007199254740992"
  by (simp add: roundToDouble_def bit_length_numeral Let_def)

lemma parseInt_odd: "parseInt ''9007199254740993'' = Finite 9007199254740992"
  by (simp add: parseInt_def isWhiteSpace_def hasHexPrefix_def isRadixDigit_def
      digitValue_def digitsValue_def roundToDouble_odd Let_def)

lemma decimal_examples:
  "decimal 42 = ''42''" "decimal 9007199254740993 = ''9007199254740993''"
  by (simp_all add: decimal.simps digitChar_def)

lemma decimal_even: "decimal 9007199254740994 = ''9007199254740994''"
  by (simp add: decimal.simps digitChar_def)


subsection \<open>\<open>lockFunds\<close>: the fields read from the events\<close>

text \<open>
  Claim C2, as amended. When \<open>execute\<close> commits the call and the wasm events of the result
  carry \<open>escrow_id\<close> attributes, all with the value \<open>v\<close>, and \<open>denom\<close> attributes, all with
  the value \<open>d\<close> (in particular when one wasm event carries one of each), \<open>lockFunds\<close>
  returns the transaction hash, \<open>escrowId = parseInt(v)\<close> and \<open>denom = d\<close>; and
  \<open>parseInt(v)\<close> is the identifier \<open>n\<close> whenever \<open>v\<close> is the decimal representation of an
  identifier \<open>n \<le> 2 ^ 53\<close>.
\<close>

theorem lockFunds_event_fields:
  fixes this senderAddress toolId maxFee authToken expires funds memo
  defines "call \<equiv> \<lparr>call_sender = senderAddress, call_contract = contractAddress this,
      call_msg = EscrowMsg (lock_funds toolId maxFee authToken expires), call_fee = ''auto'',
      call_memo = memo, call_funds = (case funds of None \<Rightarrow> [] | Some fs \<Rightarrow> fs)\<rparr>"
  assumes signing: "execute (client this) = Some ex" and committed: "ex call = Inr result"
    and ids: "set (wasm_attribute_values ''escrow_id'' (result_events result)) = {v}"
    and denoms: "set (wasm_attribute_values ''denom'' (result_events result)) = {d}"
  shows "fst (lockFunds this senderAddress toolId maxFee authToken expires funds memo) =
           Inr \<lparr>transactionHash = result_transactionHash result,
                escrowId = parseInt v, denom = Some d\<rparr>
         \<and> (\<forall>n. n \<le> 2 ^ 53 \<and> v = decimal n \<longrightarrow> parseInt v = Finite (int n))"
proof -
  note run = lockFunds_committed [OF signing committed [unfolded call_def]]
  have "fst (lockFunds this senderAddress toolId maxFee authToken expires funds memo) =
           Inr \<lparr>transactionHash = result_transactionHash result,
                escrowId = parseInt v, denom = Some d\<rparr>"
    unfolding run using singleton_last [OF ids] singleton_last [OF denoms] by simp
  moreover have "\<forall>n. n \<le> 2 ^ 53 \<and> v = decimal n \<longrightarrow> parseInt v = Finite (int n)"
    using parseInt_decimal_exact by blast
  ultimately show ?thesis by (rule conjI)
qed

theorem lockFunds_event_fields_witness:
  "fst (lockFunds
         \<lparr>client = signing_client \<lparr>result_transactionHash = ''A1B2'', result_events =
              [\<lparr>event_type = ''execute'', event_attributes = []\<rparr>,
               wasm_event [(''action'', ''lock_funds''), (''escrow_id'', ''42''),
                 (''denom'', ''untrn'')]]\<rparr>,
          contractAddress = ''neutron1escrow''\<rparr>
         ''neutron1caller'' ''weather'' ''1000000'' ''token'' (Finite 120) None None)
     = Inr \<lparr>transactionHash = ''A1B2'', escrowId = Finite 42, denom = Some ''untrn''\<rparr>"
proof -
  let ?result = "\<lparr>result_transactionHash = ''A1B2'', result_events =
              [\<lparr>event_type = ''execute'', event_attributes = []\<rparr>,
               wasm_event [(''action'', ''lock_funds''), (''escrow_id'', ''42''),
                 (''denom'', ''untrn'')]]\<rparr>"
  let ?escrow = "\<lparr>client = signing_client ?result, contractAddress = ''neutron1escrow''\<rparr>"
  have signing: "execute (client ?escrow) = Some (\<lambda>call. Inr ?result)"
    by (simp add: signing_client_def)
  have ids: "set (wasm_attribute_values ''escrow_id'' (result_events ?result)) = {''42''}"
    by (simp add: wasm_attribute_values_def wasm_event_def)
  have denoms: "set (wasm_attribute_values ''denom'' (result_events ?result)) = {''untrn''}"
    by (simp add: wasm_attribute_values_def wasm_event_def)
  show ?thesis
    using lockFunds_event_fields [OF signing refl ids denoms,
        of "''neutron1caller''" "''weather''" "''1000000''" "''token''" "Finite 120" None None]
    by (simp add: parseInt_examples)
qed

text \<open>
  The claim as it was stated fails on the result below, on both counts. Two wasm events
  carry the attributes: the first carries \<open>escrow_id = 1\<close> and \<open>denom = untrn\<close>, and
  \<open>lockFunds\<close> returns neither. The second carries the identifier \<open>2 ^ 53 + 1\<close> in
  decimal, and the \<open>escrowId\<close> returned is \<open>2 ^ 53\<close>: not the value of that attribute
  either.
\<close>

theorem lockFunds_two_events_counterexample:
  "fst (lockFunds
         \<lparr>client = signing_client \<lparr>result_transactionHash = ''A1B2'', result_events =
              [wasm_event [(''escrow_id'', ''1''), (''denom'', ''untrn'')],
               wasm_event [(''escrow_id'', ''9007199254740993''), (''denom'', ''uatom'')]]\<rparr>,
          contractAddress = ''neutron1escrow''\<rparr>
         ''neutron1caller'' ''weather'' ''1000000'' ''token'' (Finite 120) None None)
     = Inr \<lparr>transactionHash = ''A1B2'', escrowId = Finite 9007199254740992,
            denom = Some ''uatom''\<rparr>
   \<and> decimal 1 = ''1''
   \<and> decimal 9007199254740993 = ''9007199254740993''
   \<and> Finite 9007199254740992 \<noteq> Finite 1
   \<and> Finite 9007199254740992 \<noteq> Finite 9007199254740993"
  by (simp add: lockFunds_def getSigningClient_def signing_client_def wasm_event_def
      lock_event_step_def lock_attr_step_def parseInt_odd decimal_examples decimal.simps
      digitChar_def)

text \<open>
  Claim C3, as amended. When \<open>execute\<close> commits the call and the \<open>escrow_id\<close> attribute of
  the wasm events (the last one, should there be several) is the decimal representation
  of an identifier \<open>n < 2 ^ 64\<close>, \<open>lockFunds\<close> returns as \<open>escrowId\<close> the double nearest to
  \<open>n\<close>: it is \<open>n\<close> itself for every \<open>n \<le> 2 ^ 53\<close>; for \<open>2 ^ (52 + e) \<le> n < 2 ^ (53 + e)\<close> it
  is the multiple of \<open>2 ^ e\<close> nearest to \<open>n\<close> (the one with the even quotient when two are
  equally near), and this is \<open>n\<close> exactly when \<open>2 ^ e\<close> divides \<open>n\<close>.
\<close>

theorem lockFunds_escrowId_nearest:
  fixes this senderAddress toolId maxFee authToken expires funds memo
  defines "call \<equiv> \<lparr>call_sender = senderAddress, call_contract = contractAddress this,
      call_msg = EscrowMsg (lock_funds toolId maxFee authToken expires), call_fee = ''auto'',
      call_memo = memo, call_funds = (case funds of None \<Rightarrow> [] | Some fs \<Rightarrow> fs)\<rparr>"
  assumes signing: "execute (client this) = Some ex" and committed: "ex call = Inr result"
    and carried: "wasm_attribute_values ''escrow_id'' (result_events result) \<noteq> []"
    and printed: "last (wasm_attribute_values ''escrow_id'' (result_events result)) = decimal n"
    and u64: "n < 2 ^ 64"
  shows "\<exists>r v. fst (lockFunds this senderAddress toolId maxFee authToken expires funds memo) = Inr r
           \<and> escrowId r = Finite (int v)
           \<and> (n \<le> 2 ^ 53 \<longrightarrow> v = n)
           \<and> (2 ^ 53 \<le> n \<longrightarrow>
                (\<exists>e. 2 ^ (52 + e) \<le> n \<and> n < 2 ^ (53 + e)
                   \<and> 2 ^ e dvd v
                   \<and> 2 * \<bar>int v - int n\<bar> \<le> 2 ^ e
                   \<and> (2 * \<bar>int v - int n\<bar> = 2 ^ e \<longrightarrow> even (v div 2 ^ e))
                   \<and> (v = n \<longleftrightarrow> 2 ^ e dvd n)))"
proof -
  note run = lockFunds_committed [OF signing committed [unfolded call_def]]
  from parseInt_decimal_u64 [OF u64] obtain v where
    v: "parseInt (decimal n) = Finite (int v)"
    and rest: "(n \<le> 2 ^ 53 \<longrightarrow> v = n)
           \<and> (2 ^ 53 \<le> n \<longrightarrow>
                (\<exists>e. 2 ^ (52 + e) \<le> n \<and> n < 2 ^ (53 + e)
                   \<and> 2 ^ e dvd v
                   \<and> 2 * \<bar>int v - int n\<bar> \<le> 2 ^ e
                   \<and> (2 * \<bar>int v - int n\<bar> = 2 ^ e \<longrightarrow> even (v div 2 ^ e))
                   \<and> (v = n \<longleftrightarrow> 2 ^ e dvd n)))"
    by blast
  have "\<exists>r. fst (lockFunds this senderAddress toolId maxFee authToken expires funds memo) = Inr r
           \<and> escrowId r = Finite (int v)"
    unfolding run using carried printed v by simp
  with rest show ?thesis by blast
qed

theorem lockFunds_escrowId_nearest_witness:
  "\<exists>r. fst (lockFunds
         \<lparr>client = signing_client \<lparr>result_transactionHash = ''A1B2'', result_events =
              [wasm_event [(''escrow_id'', ''9007199254740994''), (''denom'', ''untrn'')]]\<rparr>,
          contractAddress = ''neutron1escrow''\<rparr>
         ''neutron1caller'' ''weather'' ''1000000'' ''token'' (Finite 120) None None) = Inr r
       \<and> escrowId r = Finite 9007199254740994"
proof -
  let ?result = "\<lparr>result_transactionHash = ''A1B2'', result_events =
              [wasm_event [(''escrow_id'', ''9007199254740994''), (''denom'', ''untrn'')]]\<rparr>"
  let ?escrow = "\<lparr>client = signing_client ?result, contractAddress = ''neutron1escrow''\<rparr>"
  let ?n = "9007199254740994 :: nat"
  have signing: "execute (client ?escrow) = Some (\<lambda>call. Inr ?result)"
    by (simp add: signing_client_def)
  have vals: "wasm_attribute_values ''escrow_id'' (result_events ?result) = [''9007199254740994'']"
    by (simp add: wasm_attribute_values_def wasm_event_def)
  have carried: "wasm_attribute_values ''escrow_id'' (result_events ?result) \<noteq> []"
    unfolding vals by simp
  have printed: "last (wasm_attribute_values ''escrow_id'' (result_events ?result)) = decimal ?n"
    unfolding vals by (simp add: decimal_even)
  have u64: "?n < 2 ^ 64" by simp
  from lockFunds_escrowId_nearest [OF signing refl carried printed u64,
        of "''neutron1caller''" "''weather''" "''1000000''" "''token''" "Finite 120" None None]
  obtain r v e where r: "fst (lockFunds ?escrow
         ''neutron1caller'' ''weather'' ''1000000'' ''token'' (Finite 120) None None) = Inr r"
    and id: "escrowId r = Finite (int v)"
    and lo: "2 ^ (52 + e) \<le> ?n" and hi: "?n < 2 ^ (53 + e)"
    and exact: "v = ?n \<longleftrightarrow> 2 ^ e dvd ?n"
    by auto
  have "e = 1"
  proof -
    have "e \<noteq> 0" using hi by (cases "e = 0") simp_all
    moreover have "e < 2"
    proof (rule ccontr)
      assume "\<not> e < 2"
      then have "54 \<le> 52 + e" by simp
      then have "(2::nat) ^ 54 \<le> 2 ^ (52 + e)" by (rule power_increasing) simp
      with lo show False by simp
    qed
    ultimately show ?thesis by simp
  qed
  with exact have "v = ?n" by simp
  with r id show ?thesis by simp
qed

text \<open>
  The claim as it was stated fails at the identifier \<open>2 ^ 53 + 1\<close>, which is below
  \<open>2 ^ 64\<close>: \<open>parseInt\<close> rounds it to the double \<open>2 ^ 53\<close>.
\<close>

theorem lockFunds_escrowId_precision_counterexample:
  "(9007199254740993::nat) < 2 ^ 64
   \<and> decimal 9007199254740993 = ''9007199254740993''
   \<and> fst (lockFunds
         \<lparr>client = signing_client \<lparr>result_transactionHash = ''A1B2'', result_events =
              [wasm_event [(''escrow_id'', ''9007199254740993''), (''denom'', ''untrn'')]]\<rparr>,
          contractAddress = ''neutron1escrow''\<rparr>
         ''neutron1caller'' ''weather'' ''1000000'' ''token'' (Finite 120) None None)
     = Inr \<lparr>transactionHash = ''A1B2'', escrowId = Finite 9007199254740992,
            denom = Some ''untrn''\<rparr>
   \<and> Finite 9007199254740992 \<noteq> Finite 9007199254740993"
  by (simp add: lockFunds_def getSigningClient_def signing_client_def wasm_event_def
      lock_event_step_def lock_attr_step_def parseInt_odd decimal_examples)

text \<open>
  Claim C10, as amended. When \<open>execute\<close> commits the call, \<open>lockFunds\<close> does not fail. It
  returns \<open>escrowId = 0\<close> if no wasm event carries an \<open>escrow_id\<close> attribute, and otherwise
  \<open>parseInt\<close> of the value of the last such attribute in event order; it returns \<open>denom\<close>
  undefined if no wasm event carries a \<open>denom\<close> attribute, and otherwise the value of the
  last such attribute.
\<close>

theorem lockFunds_last_occurrence:
  fixes this senderAddress toolId maxFee authToken expires funds memo
  defines "call \<equiv> \<lparr>call_sender = senderAddress, call_contract = contractAddress this,
      call_msg = EscrowMsg (lock_funds toolId maxFee authToken expires), call_fee = ''auto'',
      call_memo = memo, call_funds = (case funds of None \<Rightarrow> [] | Some fs \<Rightarrow> fs)\<rparr>"
  assumes signing: "execute (client this) = Some ex" and committed: "ex call = Inr result"
  shows "fst (lockFunds this senderAddress toolId maxFee authToken expires funds memo) =
     Inr \<lparr>transactionHash = result_transactionHash result,
          escrowId =
            (if wasm_attribute_values ''escrow_id'' (result_events result) = [] then Finite 0
             else parseInt (last (wasm_attribute_values ''escrow_id'' (result_events result)))),
          denom =
            (if wasm_attribute_values ''denom'' (result_events result) = [] then None
             else Some (last (wasm_attribute_values ''denom'' (result_events result))))\<rparr>"
  unfolding lockFunds_committed [OF signing committed [unfolded call_def]] by simp

theorem lockFunds_last_occurrence_witness:
  "fst (lockFunds
         \<lparr>client = signing_client \<lparr>result_transactionHash = ''A1B2'', result_events =
              [wasm_event [(''escrow_id'', ''7''), (''denom'', ''untrn'')],
               \<lparr>event_type = ''transfer'',
                event_attributes = [\<lparr>attr_key = ''escrow_id'', attr_value = ''9''\<rparr>]\<rparr>,
               wasm_event [(''denom'', ''uatom''), (''escrow_id'', ''8''),
                 (''escrow_id'', ''12'')]]\<rparr>,
          contractAddress = ''neutron1escrow''\<rparr>
         ''neutron1caller'' ''weather'' ''1000000'' ''token'' (Finite 120) None None)
   = Inr \<lparr>transactionHash = ''A1B2'', escrowId = Finite 12, denom = Some ''uatom''\<rparr>"
proof -
  let ?result = "\<lparr>result_transactionHash = ''A1B2'', result_events =
              [wasm_event [(''escrow_id'', ''7''), (''denom'', ''untrn'')],
               \<lparr>event_type = ''transfer'',
                event_attributes = [\<lparr>attr_key = ''escrow_id'', attr_value = ''9''\<rparr>]\<rparr>,
               wasm_event [(''denom'', ''uatom''), (''escrow_id'', ''8''),
                 (''escrow_id'', ''12'')]]\<rparr>"
  let ?escrow = "\<lparr>client = signing_client ?result, contractAddress = ''neutron1escrow''\<rparr>"
  have signing: "execute (client ?escrow) = Some (\<lambda>call. Inr ?result)"
    by (simp add: signing_client_def)
  show ?thesis
    using lockFunds_last_occurrence [OF signing refl, of "''neutron1caller''" "''weather''"
        "''1000000''" "''token''" "Finite 120" None None]
    by (simp add: wasm_attribute_values_def wasm_event_def parseInt_examples)
qed

text \<open>
  The claim as it was stated fails when a wasm event carries \<open>denom\<close> and none carries
  \<open>escrow_id\<close>: \<open>escrowId\<close> is 0, and \<open>denom\<close> is not undefined.
\<close>

theorem lockFunds_denom_only_counterexample:
  "wasm_attribute_values ''escrow_id'' [wasm_event [(''denom'', ''untrn'')]] = []
   \<and> fst (lockFunds
         \<lparr>client = signing_client \<lparr>result_transactionHash = ''A1B2'', result_events =
              [wasm_event [(''denom'', ''untrn'')]]\<rparr>,
          contractAddress = ''neutron1escrow''\<rparr>
         ''neutron1caller'' ''weather'' ''1000000'' ''token'' (Finite 120) None None)
     = Inr \<lparr>transactionHash = ''A1B2'', escrowId = Finite 0, denom = Some ''untrn''\<rparr>"
  by (simp add: lockFunds_def getSigningClient_def signing_client_def wasm_event_def
      wasm_attribute_values_def lock_event_step_def lock_attr_step_def)


subsection \<open>The execute messages of \<open>EscrowClient\<close>\<close>

lemma getSigningClient_Some: "execute (client this) = Some ex \<Longrightarrow> getSigningClient this = Inr ex"
  by (simp add: getSigningClient_def)

lemma getSigningClient_None:
  "execute (client this) = None \<Longrightarrow>
     getSigningClient this = Inl (Error ''This method requires a signing client'')"
  by (simp add: getSigningClient_def)

lemma registry_getSigningClient_None:
  "execute (registry_client this) = None \<Longrightarrow>
     registry_getSigningClient this = Inl (Error ''This method requires a signing client'')"
  by (simp add: registry_getSigningClient_def)

text \<open>
  What \<open>claimFees\<close> dispatches with a signing client: one call, whose message carries
  the denomination unless the argument is omitted or is the empty string.
\<close>

lemma claimFees_dispatch:
  assumes signing: "execute (client this) = Some ex"
  shows "snd (claimFees this senderAddress denom_arg funds memo) =
     [\<lparr>call_sender = senderAddress, call_contract = contractAddress this,
       call_msg = EscrowMsg (claim_fees (if denom_arg = Some [] then None else denom_arg)),
       call_fee = ''auto'', call_memo = memo,
       call_funds = (case funds of None \<Rightarrow> [] | Some fs \<Rightarrow> fs)\<rparr>]"
  by (cases denom_arg)
    (simp_all add: claimFees_def getSigningClient_Some [OF signing] Let_def split: sum.split)

text \<open>
  Claim C5. If a denomination is supplied to \<open>claimFees\<close>, the message sent is
  \<open>{claim_fees: {denom}}\<close> with exactly that denomination, and if the argument is
  omitted it is \<open>{claim_fees: {}}\<close>. The code departs from this at the empty string: the
  message is built with \<open>denom ? { denom } : {}\<close>, a test for truthiness, so
  \<open>claimFees(sender, '')\<close> sends \<open>{claim_fees: {}}\<close>, the request for every denomination,
  although an argument was supplied; the documentation of the method promises that
  request only when the denomination is not provided. The theorem evaluates the method at
  the empty string, beside an omitted and a non-empty argument, where the message is as
  the claim says.
\<close>

theorem claimFees_empty_denom:
  "snd (claimFees \<lparr>client = signing_client \<lparr>result_transactionHash = ''C3D4'', result_events = []\<rparr>,
          contractAddress = ''neutron1escrow''\<rparr> ''neutron1owner'' (Some []) None None) =
     [\<lparr>call_sender = ''neutron1owner'', call_contract = ''neutron1escrow'',
       call_msg = EscrowMsg (claim_fees None),
       call_fee = ''auto'', call_memo = None, call_funds = []\<rparr>]
   \<and> snd (claimFees \<lparr>client = signing_client \<lparr>result_transactionHash = ''C3D4'', result_events = []\<rparr>,
          contractAddress = ''neutron1escrow''\<rparr> ''neutron1owner'' None None None) =
     [\<lparr>call_sender = ''neutron1owner'', call_contract = ''neutron1escrow'',
       call_msg = EscrowMsg (claim_fees None),
       call_fee = ''auto'', call_memo = None, call_funds = []\<rparr>]
   \<and> snd (claimFees \<lparr>client = signing_client \<lparr>result_transactionHash = ''C3D4'', result_events = []\<rparr>,
          contractAddress = ''neutron1escrow''\<rparr> ''neutron1owner'' (Some ''untrn'') None None) =
     [\<lparr>call_sender = ''neutron1owner'', call_contract = ''neutron1escrow'',
       call_msg = EscrowMsg (claim_fees (Some ''untrn'')),
       call_fee = ''auto'', call_memo = None, call_funds = []\<rparr>]"
  by (simp add: claimFees_def getSigningClient_def signing_client_def)

theorem claimFees_empty_denom_witness:
  "snd (claimFees \<lparr>client = signing_client \<lparr>result_transactionHash = ''C3D4'', result_events = []\<rparr>,
          contractAddress = ''neutron1escrow''\<rparr> ''neutron1owner'' (Some []) None None) =
     [\<lparr>call_sender = ''neutron1owner'', call_contract = ''neutron1escrow'',
       call_msg = EscrowMsg (claim_fees None),
       call_fee = ''auto'', call_memo = None, call_funds = []\<rparr>]"
  by (rule claimFees_empty_denom [THEN conjunct1])

text \<open>
  Claim C6. With a signing client, the one message \<open>lockFunds\<close> dispatches carries the
  string \<open>maxFee\<close> as it was passed in its member \<open>max_fee\<close>, and the one message
  \<open>releaseFunds\<close> dispatches carries the string \<open>usageFee\<close> as it was passed in its member
  \<open>usage_fee\<close>, whatever the strings are: no conversion is applied to an amount.
\<close>

theorem amounts_verbatim:
  assumes signing: "execute (client this) = Some ex"
  shows "map call_msg (snd (lockFunds this senderAddress toolId maxFee authToken expires funds memo))
           = [EscrowMsg (lock_funds toolId maxFee authToken expires)]
       \<and> map call_msg (snd (releaseFunds this senderAddress escrowId_arg usageFee funds memo))
           = [EscrowMsg (release escrowId_arg usageFee)]"
  by (simp add: lockFunds_def releaseFunds_def getSigningClient_Some [OF signing] Let_def
      split: sum.split)

theorem amounts_verbatim_witness:
  "map call_msg (snd (lockFunds
       \<lparr>client = signing_client \<lparr>result_transactionHash = ''A1B2'', result_events = []\<rparr>,
        contractAddress = ''neutron1escrow''\<rparr>
       ''neutron1caller'' ''weather'' ''340282366920938463463374607431768211455'' ''token''
       (Finite 120) None None))
     = [EscrowMsg (lock_funds ''weather'' ''340282366920938463463374607431768211455'' ''token''
          (Finite 120))]
   \<and> map call_msg (snd (releaseFunds
       \<lparr>client = signing_client \<lparr>result_transactionHash = ''A1B2'', result_events = []\<rparr>,
        contractAddress = ''neutron1escrow''\<rparr>
       ''neutron1provider'' (Finite 42) ''340282366920938463463374607431768211455'' None None))
     = [EscrowMsg (release (Finite 42) ''340282366920938463463374607431768211455'')]"
proof -
  let ?result = "\<lparr>result_transactionHash = ''A1B2'', result_events = []\<rparr>"
  let ?escrow = "\<lparr>client = signing_client ?result, contractAddress = ''neutron1escrow''\<rparr>"
  have signing: "execute (client ?escrow) = Some (\<lambda>call. Inr ?result)"
    by (simp add: signing_client_def)
  from amounts_verbatim [OF signing, of "''neutron1caller''" "''weather''"
      "''340282366920938463463374607431768211455''" "''token''" "Finite 120" None None]
  have a: "map call_msg (snd (lockFunds ?escrow
       ''neutron1caller'' ''weather'' ''340282366920938463463374607431768211455'' ''token''
       (Finite 120) None None))
     = [EscrowMsg (lock_funds ''weather'' ''340282366920938463463374607431768211455'' ''token''
          (Finite 120))]"
    by (rule conjunct1)
  from amounts_verbatim [OF signing, of "''neutron1provider''" _ _ _ _ None None "Finite 42"
      "''340282366920938463463374607431768211455''"]
  have b: "map call_msg (snd (releaseFunds ?escrow
       ''neutron1provider'' (Finite 42) ''340282366920938463463374607431768211455'' None None))
     = [EscrowMsg (release (Finite 42) ''340282366920938463463374607431768211455'')]"
    by (rule conjunct2)
  from a b show ?thesis by (rule conjI)
qed

text \<open>
  Claim C7. For every sender address and escrow identifier, \<open>refundExpired\<close> with a signing
  client dispatches exactly one call, from that sender, whose message is
  \<open>{refund_expired: {escrow_id}}\<close> with the given identifier; no condition is placed on
  the sender. When \<open>execute\<close> commits the call the method returns the transaction hash,
  and when \<open>execute\<close> fails the method fails with the same value.
\<close>

theorem refundExpired_message:
  fixes this senderAddress escrowId_arg funds memo
  defines "call \<equiv> \<lparr>call_sender = senderAddress, call_contract = contractAddress this,
      call_msg = EscrowMsg (refund_expired escrowId_arg), call_fee = ''auto'',
      call_memo = memo, call_funds = (case funds of None \<Rightarrow> [] | Some fs \<Rightarrow> fs)\<rparr>"
  assumes signing: "execute (client this) = Some ex"
  shows "snd (refundExpired this senderAddress escrowId_arg funds memo) = [call]
       \<and> fst (refundExpired this senderAddress escrowId_arg funds memo) =
           (case ex call of Inl err \<Rightarrow> Inl err
            | Inr result \<Rightarrow> Inr (result_transactionHash result))"
  by (simp add: refundExpired_def getSigningClient_Some [OF signing] call_def Let_def
      split: sum.split)

theorem refundExpired_message_witness:
  "snd (refundExpired
       \<lparr>client = signing_client \<lparr>result_transactionHash = ''E5F6'', result_events = []\<rparr>,
        contractAddress = ''neutron1escrow''\<rparr> ''neutron1anyone'' (Finite 42) None None)
     = [\<lparr>call_sender = ''neutron1anyone'', call_contract = ''neutron1escrow'',
         call_msg = EscrowMsg (refund_expired (Finite 42)), call_fee = ''auto'',
         call_memo = None, call_funds = []\<rparr>]
   \<and> fst (refundExpired
       \<lparr>client = signing_client \<lparr>result_transactionHash = ''E5F6'', result_events = []\<rparr>,
        contractAddress = ''neutron1escrow''\<rparr> ''neutron1anyone'' (Finite 42) None None)
     = Inr ''E5F6''"
proof -
  let ?result = "\<lparr>result_transactionHash = ''E5F6'', result_events = []\<rparr>"
  let ?escrow = "\<lparr>client = signing_client ?result, contractAddress = ''neutron1escrow''\<rparr>"
  have signing: "execute (client ?escrow) = Some (\<lambda>call. Inr ?result)"
    by (simp add: signing_client_def)
  show ?thesis
    using refundExpired_message [OF signing, of "''neutron1anyone''" "Finite 42" None None]
    by simp
qed

text \<open>
  Claim C8. When the client has no member \<open>execute\<close>, each of \<open>lockFunds\<close>,
  \<open>releaseFunds\<close>, \<open>refundExpired\<close> and \<open>claimFees\<close> of \<open>EscrowClient\<close> and each of
  \<open>registerTool\<close>, \<open>updatePrice\<close>, \<open>pauseTool\<close> and \<open>resumeTool\<close> of \<open>RegistryClient\<close>
  throws an \<open>Error\<close> with the message \<open>This method requires a signing client\<close> and
  dispatches no call.
\<close>

theorem signing_client_required:
  "(execute (client this) = None \<longrightarrow>
      lockFunds this senderAddress toolId maxFee authToken expires funds memo
        = (Inl (Error ''This method requires a signing client''), [])
      \<and> releaseFunds this senderAddress escrowId_arg usageFee funds memo
        = (Inl (Error ''This method requires a signing client''), [])
      \<and> refundExpired this senderAddress escrowId_arg funds memo
        = (Inl (Error ''This method requires a signing client''), [])
      \<and> claimFees this senderAddress denom_arg funds memo
        = (Inl (Error ''This method requires a signing client''), []))
   \<and> (execute (registry_client registry) = None \<longrightarrow>
      registerTool registry senderAddress toolId price funds
        = (Inl (Error ''This method requires a signing client''), [])
      \<and> updatePrice registry senderAddress toolId price funds
        = (Inl (Error ''This method requires a signing client''), [])
      \<and> pauseTool registry senderAddress toolId funds
        = (Inl (Error ''This method requires a signing client''), [])
      \<and> resumeTool registry senderAddress toolId funds
        = (Inl (Error ''This method requires a signing client''), []))"
proof -
  have escrow: "lockFunds this senderAddress toolId maxFee authToken expires funds memo
        = (Inl (Error ''This method requires a signing client''), [])
      \<and> releaseFunds this senderAddress escrowId_arg usageFee funds memo
        = (Inl (Error ''This method requires a signing client''), [])
      \<and> refundExpired this senderAddress escrowId_arg funds memo
        = (Inl (Error ''This method requires a signing client''), [])
      \<and> claimFees this senderAddress denom_arg funds memo
        = (Inl (Error ''This method requires a signing client''), [])"
    if "execute (client this) = None"
    by (simp add: lockFunds_def releaseFunds_def refundExpired_def claimFees_def
        getSigningClient_None [OF that])
  have reg: "registerTool registry senderAddress toolId price funds
        = (Inl (Error ''This method requires a signing client''), [])
      \<and> updatePrice registry senderAddress toolId price funds
        = (Inl (Error ''This method requires a signing client''), [])
      \<and> pauseTool registry senderAddress toolId funds
        = (Inl (Error ''This method requires a signing client''), [])
      \<and> resumeTool registry senderAddress toolId funds
        = (Inl (Error ''This method requires a signing client''), [])"
    if "execute (registry_client registry) = None"
    by (simp add: registerTool_def updatePrice_def pauseTool_def resumeTool_def
        registry_getSigningClient_None [OF that])
  from escrow reg show ?thesis by blast
qed

theorem signing_client_required_witness:
  "lockFunds \<lparr>client = readonly_client (Inr JsNull), contractAddress = ''neutron1escrow''\<rparr>
      ''neutron1caller'' ''weather'' ''1000000'' ''token'' (Finite 120) None None
     = (Inl (JsError ''Error'' ''This method requires a signing client''), [])
   \<and> registerTool
      \<lparr>registry_client = readonly_client (Inr JsNull), registry_contractAddress = ''neutron1registry''\<rparr>
      ''neutron1caller'' ''weather'' ''1000000'' None
     = (Inl (JsError ''Error'' ''This method requires a signing client''), [])"
proof -
  let ?escrow = "\<lparr>client = readonly_client (Inr JsNull), contractAddress = ''neutron1escrow''\<rparr>"
  let ?registry = "\<lparr>registry_client = readonly_client (Inr JsNull),
      registry_contractAddress = ''neutron1registry''\<rparr>"
  have e: "execute (client ?escrow) = None" by (simp add: readonly_client_def)
  have r: "execute (registry_client ?registry) = None" by (simp add: readonly_client_def)
  note both = signing_client_required [of ?escrow "''neutron1caller''" "''weather''"
      "''1000000''" "''token''" "Finite 120" None None "Finite 42" "''600000''" None ?registry
      "''1000000''"]
  have "lockFunds ?escrow
      ''neutron1caller'' ''weather'' ''1000000'' ''token'' (Finite 120) None None
     = (Inl (Error ''This method requires a signing client''), [])"
    by (rule both [THEN conjunct1, rule_format, OF e, THEN conjunct1])
  moreover have "registerTool ?registry
      ''neutron1caller'' ''weather'' ''1000000'' None
     = (Inl (Error ''This method requires a signing client''), [])"
    by (rule both [THEN conjunct2, rule_format, OF r, THEN conjunct1])
  ultimately show ?thesis
    unfolding Error_def by (rule conjI)
qed


subsection \<open>\<open>normalizeError\<close>\<close>

lemma message_classified:
  "message (if A then new_NetworkError m d1
            else if B then new_WalletError m d2
            else if C then new_ContractError m d3
            else new_PayPerToolError n m c d4) = m"
  by (simp add: new_NetworkError_def new_WalletError_def new_ContractError_def
      new_PayPerToolError_def)

lemma instanceof_classified:
  "instanceof_PayPerToolError (if A then new_NetworkError m d1
            else if B then new_WalletError m d2
            else if C then new_ContractError m d3
            else new_PayPerToolError n m c d4)"
  by (simp add: new_NetworkError_def new_WalletError_def new_ContractError_def
      new_PayPerToolError_def)

lemma classified_exists:
  "\<exists>r. (Inr (if A then new_NetworkError m d1
                 else if B then new_WalletError m d2
                 else if C then new_ContractError m d3
                 else new_PayPerToolError n m c d4) :: js_value + js_value) = Inr r
         \<and> instanceof_PayPerToolError r \<and> message r = m"
  by (simp add: message_classified instanceof_classified)

lemma typeof_string: "(typeof v = ''string'') = (\<exists>s. v = JsString s)"
  by (cases v) simp_all

lemma select_message_data:
  assumes "message_is_data e"
  shows "select_message e d =
     Inr (case message_property e of Some (DataProperty (JsString m)) \<Rightarrow> m | _ \<Rightarrow> d)"
proof (cases "message_property e")
  case None
  then show ?thesis
    by (simp add: select_message_def hasMessage_def)
next
  case (Some p)
  then have obj: "typeof e = ''object'' \<and> e \<noteq> JsNull"
    by (cases e) simp_all
  from Some assms obtain v where p: "p = DataProperty v"
    by (cases p) (simp_all add: message_is_data_def)
  show ?thesis
  proof (cases "\<exists>m. v = JsString m")
    case True
    then obtain m where "v = JsString m" ..
    with Some p obj show ?thesis
      by (simp add: select_message_def hasMessage_def read_message_def)
  next
    case False
    then have "typeof v \<noteq> ''string''"
      by (simp add: typeof_string)
    moreover from False have "(case v of JsString m \<Rightarrow> m | _ \<Rightarrow> d) = d"
      by (cases v) simp_all
    ultimately show ?thesis
      using Some p obj by (simp add: select_message_def hasMessage_def)
  qed
qed

lemma normalizeError_same: "instanceof_PayPerToolError e \<Longrightarrow> normalizeError e dm = Inr e"
  by (simp add: normalizeError_def)

lemma normalizeError_data:
  assumes "message_is_data e"
  shows "\<exists>r. normalizeError e dm = Inr r \<and> instanceof_PayPerToolError r
           \<and> message r =
               (case message_property e of
                  Some (DataProperty (JsString m)) \<Rightarrow> m
                | _ \<Rightarrow> (case dm of None \<Rightarrow> ''Unknown error'' | Some d \<Rightarrow> d))"
proof (cases "instanceof_PayPerToolError e")
  case True
  then obtain n m c d where "e = PayPerToolError n m c d"
    by (cases e) simp_all
  then show ?thesis by (simp add: normalizeError_def)
next
  case False
  then show ?thesis
    unfolding normalizeError_def Let_def select_message_data [OF assms]
    by (simp only: if_False sum.case) (rule classified_exists)
qed

text \<open>
  Claim C9, as amended. For every value whose property \<open>message\<close>, if it has one, is a
  data property, and for every default message, \<open>normalizeError\<close> returns (it does not
  throw) an instance of \<open>PayPerToolError\<close>; the message of the result is the property
  \<open>message\<close> of the input when the input is an object that holds a string there, and the
  default message otherwise; an input that is an instance of \<open>PayPerToolError\<close> is
  returned as it is; and normalising the result a second time returns it unchanged.
\<close>

theorem normalizeError_data_idempotent:
  assumes "message_is_data e"
  shows "\<exists>r. normalizeError e dm = Inr r \<and> instanceof_PayPerToolError r
           \<and> message r =
               (case message_property e of
                  Some (DataProperty (JsString m)) \<Rightarrow> m
                | _ \<Rightarrow> (case dm of None \<Rightarrow> ''Unknown error'' | Some d \<Rightarrow> d))
           \<and> (instanceof_PayPerToolError e \<longrightarrow> r = e)
           \<and> normalizeError r dm' = Inr r"
proof -
  from normalizeError_data [OF assms, of dm] obtain r where
    r: "normalizeError e dm = Inr r" and inst: "instanceof_PayPerToolError r"
    and msg: "message r =
               (case message_property e of
                  Some (DataProperty (JsString m)) \<Rightarrow> m
                | _ \<Rightarrow> (case dm of None \<Rightarrow> ''Unknown error'' | Some d \<Rightarrow> d))"
    by blast
  have same: "instanceof_PayPerToolError e \<longrightarrow> r = e"
    using r normalizeError_same [of e dm] by auto
  have again: "normalizeError r dm' = Inr r"
    using inst by (rule normalizeError_same)
  from r inst msg same again show ?thesis by blast
qed

theorem normalizeError_data_idempotent_witness:
  "\<exists>r. normalizeError (JsError ''Error'' ''connection refused'') None = Inr r
       \<and> instanceof_PayPerToolError r \<and> message r = ''connection refused''
       \<and> normalizeError r (Some ''again'') = Inr r"
proof -
  have data: "message_is_data (JsError ''Error'' ''connection refused'')"
    by (simp add: message_is_data_def)
  from normalizeError_data_idempotent [OF data, of None "Some ''again''"]
  show ?thesis by auto
qed

text \<open>
  The claim as it was stated fails on an object whose property \<open>message\<close> is an accessor
  with a throwing getter: \<open>hasMessage\<close> reads the property, and \<open>normalizeError\<close> throws
  what the getter throws.
\<close>

theorem normalizeError_getter_counterexample:
  "normalizeError (JsObject [(''message'', AccessorProperty (Inl (JsString ''boom'')))]) None
     = Inl (JsString ''boom'')"
  by (simp add: normalizeError_def select_message_def hasMessage_def)


subsection \<open>\<open>getTool\<close>\<close>

lemma is_ToolResponse_object: "is_ToolResponse v \<Longrightarrow> truthy v \<and> typeof v = ''object''"
  by (cases v) simp_all

lemma instanceof_Error_Error: "instanceof_Error (Error m)"
  by (simp add: Error_def)

lemma getTool_answered:
  "queryContractSmart (registry_client this) (registry_contractAddress this) (get_tool toolId)
     = Inr response \<Longrightarrow>
   getTool String_of this toolId =
     (if truthy response \<and> typeof response = ''object'' then Inr response
      else Inl (Error ''Invalid response from registry contract''))"
  by (simp add: getTool_def Let_def instanceof_Error_Error Error_def)

lemma getTool_failed:
  "queryContractSmart (registry_client this) (registry_contractAddress this) (get_tool toolId)
     = Inl err \<Longrightarrow>
   getTool String_of this toolId =
     (if instanceof_Error err then
        if includes_str (error_message err) ''not found''
           \<or> includes_str (error_message err) ''No such tool''
        then Inl (Error (''Tool '' @ [CHR 0x27] @ toolId @ [CHR 0x27] @ '' not found in registry''))
        else Inl err
      else Inl (Error (''Failed to query tool: '' @ String_of err)))"
  by (simp add: getTool_def Let_def)

text \<open>
  The outcomes of \<open>getTool\<close>. It returns the answer of the query unchanged exactly when
  the answer is a non-null object, so an answer that is a \<open>ToolResponse\<close> is returned as
  it is; whatever it throws is an instance of \<open>Error\<close>; when the query fails with an
  \<open>Error\<close> whose message contains \<open>not found\<close> or \<open>No such tool\<close>, the \<open>Error\<close> thrown has
  exactly the message \<open>Tool '<toolId>' not found in registry\<close>; and a failed query never
  makes \<open>getTool\<close> return normally.
\<close>

lemma getTool_outcomes:
  fixes String_of this toolId
  defines "answer \<equiv>
    queryContractSmart (registry_client this) (registry_contractAddress this) (get_tool toolId)"
  shows "(\<forall>response. answer = Inr response \<and> truthy response \<and> typeof response = ''object''
            \<longrightarrow> getTool String_of this toolId = Inr response)
       \<and> (\<forall>response. answer = Inr response \<and> is_ToolResponse response
            \<longrightarrow> getTool String_of this toolId = Inr response)
       \<and> (\<forall>r. getTool String_of this toolId = Inr r
            \<longrightarrow> answer = Inr r \<and> truthy r \<and> typeof r = ''object'')
       \<and> (\<forall>e. getTool String_of this toolId = Inl e \<longrightarrow> instanceof_Error e)
       \<and> (\<forall>err. answer = Inl err \<and> instanceof_Error err
              \<and> (includes_str (error_message err) ''not found''
                  \<or> includes_str (error_message err) ''No such tool'')
            \<longrightarrow> getTool String_of this toolId =
                  Inl (Error (''Tool '' @ [CHR 0x27] @ toolId @ [CHR 0x27]
                        @ '' not found in registry'')))
       \<and> (\<forall>err. answer = Inl err \<longrightarrow> (\<exists>e. getTool String_of this toolId = Inl e))"
proof (cases answer)
  case (Inl err)
  note run = getTool_failed [OF Inl [unfolded answer_def], of String_of]
  show ?thesis
    unfolding Inl run by (simp add: instanceof_Error_Error)
next
  case (Inr response)
  note run = getTool_answered [OF Inr [unfolded answer_def], of String_of]
  show ?thesis
    unfolding Inr run using is_ToolResponse_object [of response]
    by (auto simp add: instanceof_Error_Error)
qed

text \<open>
  Claim C4. \<open>getTool\<close> either returns a tool entry with provider address, price,
  denomination, \<open>is_active\<close> flag and description, or fails with an error. The code
  departs from this: the block that the source comments \<open>Validate response has expected
  structure\<close>, in a method declared to return \<open>Promise<ToolResponse>\<close>, only tests that the
  response is a non-null object. An answer that lacks members of \<open>ToolResponse\<close> is
  therefore returned normally: the empty object, and an entry that has neither
  denomination nor description. The error paths are as the claim says
  (\<open>getTool_outcomes\<close>).
\<close>

theorem getTool_returns_unvalidated_object:
  "getTool (\<lambda>v. ''[object Object]'')
      \<lparr>registry_client = readonly_client (Inr (JsObject [])),
       registry_contractAddress = ''neutron1registry''\<rparr> ''weather''
     = Inr (JsObject [])
   \<and> \<not> is_ToolResponse (JsObject [])
   \<and> getTool (\<lambda>v. ''[object Object]'')
      \<lparr>registry_client = readonly_client (Inr (JsObject
          [(''tool_id'', DataProperty (JsString ''weather'')),
           (''provider'', DataProperty (JsString ''neutron1provider'')),
           (''price'', DataProperty (JsString ''1000000'')),
           (''is_active'', DataProperty (JsBoolean True))])),
       registry_contractAddress = ''neutron1registry''\<rparr> ''weather''
     = Inr (JsObject
          [(''tool_id'', DataProperty (JsString ''weather'')),
           (''provider'', DataProperty (JsString ''neutron1provider'')),
           (''price'', DataProperty (JsString ''1000000'')),
           (''is_active'', DataProperty (JsBoolean True))])
   \<and> \<not> is_ToolResponse (JsObject
          [(''tool_id'', DataProperty (JsString ''weather'')),
           (''provider'', DataProperty (JsString ''neutron1provider'')),
           (''price'', DataProperty (JsString ''1000000'')),
           (''is_active'', DataProperty (JsBoolean True))])"
  by (simp add: getTool_def readonly_client_def has_string_member_def has_boolean_member_def)

theorem getTool_returns_unvalidated_object_witness:
  "getTool (\<lambda>v. ''[object Object]'')
      \<lparr>registry_client = readonly_client (Inr (JsObject [])),
       registry_contractAddress = ''neutron1registry''\<rparr> ''weather''
     = Inr (JsObject [])"
  by (rule getTool_returns_unvalidated_object [THEN conjunct1])

end
